theory Spec2Isabelle
  imports Complex_Main
begin

section \<open>JavaScript values, strings and objects\<close>

text \<open>
  The program is TypeScript run by a JavaScript engine. Strings are lists of characters;
  every character the program inspects one by one (the dot, the letters of an
  extension, decimal digits) is ASCII, and \<open>toLowerCase\<close> maps no character outside
  ASCII to an ASCII letter of the extensions compared here, so lowering the ASCII
  letters only gives the same comparisons.
\<close>

definition toLowerChar :: "char \<Rightarrow> char" where
  "toLowerChar c =
     (case map_of (zip ''ABCDEFGHIJKLMNOPQRSTUVWXYZ'' ''abcdefghijklmnopqrstuvwxyz'') c of
        Some l \<Rightarrow> l
      | None \<Rightarrow> c)"

definition toLowerCase :: "string \<Rightarrow> string" where
  "toLowerCase s = map toLowerChar s"

text \<open>
  A property read \<open>obj[key]\<close> on an object literal answers with the object's own
  property when it has one, and otherwise walks the prototype chain: an object literal
  inherits the members of \<open>Object.prototype\<close>. Such an inherited member is a function
  (or, for \<open>__proto__\<close>, the prototype object itself): a truthy value that is not a
  string. \<open>Native k\<close> stands for the member inherited under the name \<open>k\<close>.
\<close>

datatype js_value = Undefined | Str string | Native string

definition Object_prototype_keys :: "string list" where
  "Object_prototype_keys =
     [''constructor'', ''__defineGetter__'', ''__defineSetter__'', ''hasOwnProperty'',
      ''__lookupGetter__'', ''__lookupSetter__'', ''isPrototypeOf'',
      ''propertyIsEnumerable'', ''toString'', ''valueOf'', ''__proto__'',
      ''toLocaleString'']"

text \<open>An object literal whose values are strings: its own properties in insertion order.\<close>

type_synonym js_object = "(string \<times> string) list"

definition obj_get :: "js_object \<Rightarrow> string \<Rightarrow> js_value" where
  "obj_get obj key =
     (case map_of obj key of
        Some v \<Rightarrow> Str v
      | None \<Rightarrow> if key \<in> set Object_prototype_keys then Native key else Undefined)"

fun truthy :: "js_value \<Rightarrow> bool" where
  "truthy Undefined = False"
| "truthy (Str s) = (s \<noteq> [])"
| "truthy (Native k) = True"

text \<open>\<open>a || b\<close> on values.\<close>

definition js_or :: "js_value \<Rightarrow> js_value \<Rightarrow> js_value" where
  "js_or a b = (if truthy a then a else b)"

text \<open>
  The text of a value inside a template literal. The text of a native function has the
  form \<open>function name() { [native code] }\<close> fixed by the language, with the white
  space of the engine (here that of JavaScriptCore, which runs the program under Bun: a
  line break and four spaces before \<open>[native code]\<close>, a line break after it);
  \<open>__proto__\<close> is the prototype object.
\<close>

definition native_name :: "string \<Rightarrow> string" where
  "native_name k = (if k = ''constructor'' then ''Object'' else k)"

fun String_js :: "js_value \<Rightarrow> string" where
  "String_js Undefined = ''undefined''"
| "String_js (Str s) = s"
| "String_js (Native k) =
     (if k = ''__proto__'' then ''[object Object]''
      else ''function '' @ native_name k @ ''() {'' @ [CHR 0x0A] @ ''    [native code]''
             @ [CHR 0x0A] @ ''}'')"

text \<open>An optional string field (\<open>field?: string\<close>) read as a value.\<close>

fun of_opt :: "string option \<Rightarrow> js_value" where
  "of_opt None = Undefined"
| "of_opt (Some s) = Str s"

text \<open>What the program throws: an \<open>Error\<close> with its message, or some other value.\<close>

datatype js_exn =
    Error string
  | APIError "nat option" string
  | Thrown

section \<open>Image I/O utilities: \<open>getMimeType\<close>\<close>

text \<open>\<open>s.split('.').pop()\<close>: the text after the last dot, the whole of \<open>s\<close> without one.\<close>

definition split_dot_pop :: "string \<Rightarrow> string" where
  "split_dot_pop s = rev (takeWhile (\<lambda>c. c \<noteq> CHR ''.'') (rev s))"

definition mimeTypes :: js_object where
  "mimeTypes =
     [(''png'', ''image/png''),
      (''jpg'', ''image/jpeg''),
      (''jpeg'', ''image/jpeg''),
      (''webp'', ''image/webp''),
      (''gif'', ''image/gif'')]"

text \<open>
  \<open>split\<close> never returns an empty array, so \<open>ext\<close> is a string and \<open>ext || ''\<close> is
  \<open>ext\<close> itself (the empty string when \<open>ext\<close> is empty).
\<close>

definition getMimeType :: "string \<Rightarrow> js_value" where
  "getMimeType path =
     (let ext = split_dot_pop (toLowerCase path)
      in js_or (obj_get mimeTypes ext) (Str ''image/png''))"

section \<open>Types and the routing table\<close>

text \<open>
  \<open>MODEL_TO_PROVIDER\<close> is an object literal. None of its keys is an integer index, so
  \<open>Object.keys\<close> and \<open>Object.entries\<close> list its own properties in the order they are
  written.
\<close>

definition MODEL_TO_PROVIDER :: js_object where
  "MODEL_TO_PROVIDER =
     [(''flux'', ''replicate''),
      (''flux-schnell'', ''replicate''),
      (''flux-pro'', ''replicate''),
      (''gpt-image-1'', ''openai''),
      (''gpt-image-1.5'', ''openai''),
      (''imagen-3'', ''google''),
      (''imagen-3-fast'', ''google''),
      (''imagen-4'', ''google''),
      (''nano-banana'', ''google''),
      (''nano-banana-pro'', ''google'')]"

definition Object_keys :: "js_object \<Rightarrow> string list" where
  "Object_keys obj = map fst obj"

definition Object_entries :: "js_object \<Rightarrow> (string \<times> string) list" where
  "Object_entries obj = obj"

fun join :: "string \<Rightarrow> string list \<Rightarrow> string" where
  "join sep [] = []"
| "join sep [x] = x"
| "join sep (x # y # ys) = x @ sep @ join sep (y # ys)"

section \<open>Provider instances and their constructors\<close>

text \<open>
  A provider instance is an object: \<open>ref\<close> is its identity, the number of the
  constructor call that allocated it. Two instances are the same object exactly when
  their \<open>ref\<close> is the same. The backend client handle records the credential it
  was built with; only the CLI-capable Google adapter can hold no client (\<open>null\<close>).
\<close>

datatype client =
    ReplicateClient string
  | OpenAIClient string
  | GoogleGenerativeAIClient string
  | GoogleGenAIClient string

record ImageProvider =
  ref :: nat
  name :: string
  models :: "string list"
  client :: "client option"

type_synonym env = "string \<rightharpoonup> string"

text \<open>\<open>process.env.NAME\<close>: \<open>undefined\<close> when the variable is unset.\<close>

definition env_get :: "env \<Rightarrow> string \<Rightarrow> js_value" where
  "env_get e k = of_opt (e k)"

definition new_ReplicateProvider :: "env \<Rightarrow> nat \<Rightarrow> js_exn + ImageProvider" where
  "new_ReplicateProvider e r =
     (let apiKey = env_get e ''REPLICATE_API_TOKEN''
      in if \<not> truthy apiKey
         then Inl (Error ''REPLICATE_API_TOKEN environment variable is required'')
         else Inr \<lparr>ref = r, name = ''Replicate'',
                   models = [''flux'', ''flux-schnell'', ''flux-pro''],
                   client = Some (ReplicateClient (String_js apiKey))\<rparr>)"

definition new_OpenAIProvider :: "env \<Rightarrow> nat \<Rightarrow> js_exn + ImageProvider" where
  "new_OpenAIProvider e r =
     (let apiKey = env_get e ''OPENAI_API_KEY''
      in if \<not> truthy apiKey
         then Inl (Error ''OPENAI_API_KEY environment variable is required'')
         else Inr \<lparr>ref = r, name = ''OpenAI'',
                   models = [''gpt-image-1'', ''gpt-image-1.5''],
                   client = Some (OpenAIClient (String_js apiKey))\<rparr>)"

text \<open>
  The repository holds three files that declare the class \<open>GoogleProvider\<close>:
  \<open>providers/google.ts\<close> (on the \<open>@google/generative-ai\<close> SDK), a second one on the
  \<open>@google/genai\<close> SDK, and a third, CLI-capable one that can drive a local
  \<open>gemini\<close> executable. The registry imports \<open>GoogleProvider\<close> from \<open>./google\<close>;
  \<open>google_module\<close> says which of the three that module is.
\<close>

datatype google_module = GenerativeAI | GenAI | GenAICli

definition google_models :: "string list" where
  "google_models = [''imagen-3'', ''imagen-3-fast'', ''imagen-4'', ''nano-banana'', ''nano-banana-pro'']"

definition google_apiKey :: "env \<Rightarrow> js_value" where
  "google_apiKey e = js_or (env_get e ''GOOGLE_API_KEY'') (env_get e ''GEMINI_API_KEY'')"

definition new_GoogleProvider_GenerativeAI :: "env \<Rightarrow> nat \<Rightarrow> js_exn + ImageProvider" where
  "new_GoogleProvider_GenerativeAI e r =
     (let apiKey = google_apiKey e
      in if \<not> truthy apiKey
         then Inl (Error ''GOOGLE_API_KEY or GEMINI_API_KEY environment variable is required'')
         else Inr \<lparr>ref = r, name = ''Google'', models = google_models,
                   client = Some (GoogleGenerativeAIClient (String_js apiKey))\<rparr>)"

definition new_GoogleProvider_GenAI :: "env \<Rightarrow> nat \<Rightarrow> js_exn + ImageProvider" where
  "new_GoogleProvider_GenAI e r =
     (let apiKey = google_apiKey e
      in if \<not> truthy apiKey
         then Inl (Error ''GOOGLE_API_KEY or GEMINI_API_KEY environment variable is required'')
         else Inr \<lparr>ref = r, name = ''Google'', models = google_models,
                   client = Some (GoogleGenAIClient (String_js apiKey))\<rparr>)"

definition new_GoogleProvider_GenAICli :: "env \<Rightarrow> nat \<Rightarrow> js_exn + ImageProvider" where
  "new_GoogleProvider_GenAICli e r =
     (let apiKey = google_apiKey e
      in Inr \<lparr>ref = r, name = ''Google'', models = google_models,
               client = (if truthy apiKey then Some (GoogleGenAIClient (String_js apiKey))
                         else None)\<rparr>)"

fun new_GoogleProvider :: "google_module \<Rightarrow> env \<Rightarrow> nat \<Rightarrow> js_exn + ImageProvider" where
  "new_GoogleProvider GenerativeAI = new_GoogleProvider_GenerativeAI"
| "new_GoogleProvider GenAI = new_GoogleProvider_GenAI"
| "new_GoogleProvider GenAICli = new_GoogleProvider_GenAICli"

section \<open>Provider registry\<close>

text \<open>
  The state of the process that the registry touches: the environment, the module-level
  \<open>providers\<close> map (a \<open>Map\<close>, keyed by whatever value it is given), and the log of
  constructor calls made so far, oldest first, by class name. A \<open>new\<close> expression
  allocates the object and runs the constructor; it is logged whether or not the
  constructor throws.
\<close>

record process =
  env :: env
  providers :: "js_value \<rightharpoonup> ImageProvider"
  news :: "string list"

definition new :: "string \<Rightarrow> (env \<Rightarrow> nat \<Rightarrow> js_exn + ImageProvider) \<Rightarrow> process
    \<Rightarrow> (js_exn + ImageProvider) \<times> process" where
  "new cls ctor s = (ctor (env s) (length (news s)), s\<lparr>news := news s @ [cls]\<rparr>)"

definition getOrCreateProvider :: "google_module \<Rightarrow> js_value \<Rightarrow> process
    \<Rightarrow> (js_exn + ImageProvider) \<times> process" where
  "getOrCreateProvider g providerName s =
     (case providers s providerName of
        Some provider \<Rightarrow> (Inr provider, s)
      | None \<Rightarrow>
          (case (if providerName = Str ''replicate'' then new ''ReplicateProvider'' new_ReplicateProvider s
                 else if providerName = Str ''openai'' then new ''OpenAIProvider'' new_OpenAIProvider s
                 else if providerName = Str ''google'' then new ''GoogleProvider'' (new_GoogleProvider g) s
                 else (Inl (Error (''Unknown provider: '' @ String_js providerName)), s)) of
             (Inl e, s') \<Rightarrow> (Inl e, s')
           | (Inr provider, s') \<Rightarrow>
               (Inr provider, s'\<lparr>providers := (providers s')(providerName \<mapsto> provider)\<rparr>)))"

definition getProviderForModel :: "google_module \<Rightarrow> string \<Rightarrow> process
    \<Rightarrow> (js_exn + ImageProvider) \<times> process" where
  "getProviderForModel g model s =
     (let providerName = obj_get MODEL_TO_PROVIDER model
      in if \<not> truthy providerName
         then (Inl (Error (''Unknown model: '' @ model @ ''. Available models: ''
                            @ join '', '' (Object_keys MODEL_TO_PROVIDER))), s)
         else getOrCreateProvider g providerName s)"

text \<open>
  \<open>listModels\<close> takes no argument and mentions neither the \<open>providers\<close> map nor a
  constructor; as an operation on the process it hands the state back as it got it.
\<close>

definition listModels :: "process \<Rightarrow> (string \<times> string) list \<times> process" where
  "listModels s = (map (\<lambda>(model, provider). (model, provider)) (Object_entries MODEL_TO_PROVIDER), s)"

text \<open>The process as it starts: nothing constructed, nothing cached.\<close>

definition start :: "env \<Rightarrow> process" where
  "start e = \<lparr>env = e, providers = Map.empty, news = []\<rparr>"

text \<open>
  Only the three provider names are ever stored in the \<open>providers\<close> map. This holds
  at start and every registry call keeps it.
\<close>

definition registry_inv :: "process \<Rightarrow> bool" where
  "registry_inv s =
     (\<forall>k. k \<noteq> Str ''replicate'' \<and> k \<noteq> Str ''openai'' \<and> k \<noteq> Str ''google''
          \<longrightarrow> providers s k = None)"

text \<open>
  Object identity in the \<open>providers\<close> map: every instance in it was allocated by a
  constructor call that is already logged, and two entries never hold the same object.
\<close>

definition refs_inv :: "process \<Rightarrow> bool" where
  "refs_inv s =
     ((\<forall>k inst. providers s k = Some inst \<longrightarrow> ref inst < length (news s)) \<and>
      (\<forall>k k' inst inst'.
         providers s k = Some inst \<and> providers s k' = Some inst' \<and> ref inst = ref inst' \<longrightarrow> k = k'))"

section \<open>Generation requests and results\<close>

text \<open>
  A JavaScript number that an option can hold: what \<open>parseInt\<close> and \<open>parseFloat\<close>
  return is a finite number or \<open>NaN\<close>. A number is truthy when it is neither \<open>NaN\<close>
  nor zero.
\<close>

datatype js_number = NaN | Num rat

fun truthy_num :: "js_number option \<Rightarrow> bool" where
  "truthy_num None = False"
| "truthy_num (Some NaN) = False"
| "truthy_num (Some (Num q)) = (q \<noteq> 0)"

text \<open>The \<open>--thumbnail [size]\<close> option: \<open>true\<close> without a size, else what \<open>parseInt\<close> gave.\<close>

datatype thumbnail = ThumbnailFlag bool | ThumbnailSize js_number

text \<open>
  The fields \<open>size\<close> and \<open>output\<close> of the source are \<open>size_opt\<close> and \<open>output_opt\<close>
  here.
\<close>

record GenerateOptions =
  model :: string
  prompt :: string
  size_opt :: "string option"
  aspectRatio :: "string option"
  output_opt :: "string option"
  referenceImages :: "string list option"
  transparent :: "bool option"
  removeBg :: "bool option"
  addBg :: "string option"
  negativePrompt :: "string option"
  thumbnail :: "thumbnail option"
  variations :: "nat option"
  seed :: "js_number option"
  steps :: "js_number option"
  guidance :: "js_number option"
  quality :: "string option"
  style :: "string option"
  numImages :: "js_number option"
  useApi :: "bool option"

text \<open>The elapsed time that the source also stores in the metadata is left out.\<close>

record metadata =
  meta_model :: string
  meta_prompt :: string
  meta_seed :: "js_number option"

record GenerationResult =
  success :: bool
  outputPath :: "string option"
  error :: "string option"
  metadata :: "metadata option"

definition failure :: "string \<Rightarrow> GenerationResult" where
  "failure msg = \<lparr>success = False, outputPath = None, error = Some msg, metadata = None\<rparr>"

definition DEFAULT_model :: string where "DEFAULT_model = ''nano-banana-pro''"
definition DEFAULT_aspectRatio :: string where "DEFAULT_aspectRatio = ''16:9''"
definition DEFAULT_output :: string where "DEFAULT_output = ''/tmp/generated-image.png''"
definition DEFAULT_quality :: string where "DEFAULT_quality = ''standard''"
definition DEFAULT_style :: string where "DEFAULT_style = ''vivid''"
definition DEFAULT_numImages :: js_number where "DEFAULT_numImages = Num 1"
definition DEFAULT_steps :: js_number where "DEFAULT_steps = Num 28"
definition DEFAULT_guidance :: js_number where "DEFAULT_guidance = Num (7 / 2)"

text \<open>\<open>s || d\<close> for an optional string \<open>s\<close> and a string \<open>d\<close>.\<close>

fun or_default :: "string option \<Rightarrow> string \<Rightarrow> string" where
  "or_default None d = d"
| "or_default (Some s) d = (if s = [] then d else s)"

fun flag :: "bool option \<Rightarrow> bool" where
  "flag None = False"
| "flag (Some b) = b"

fun truthy_str :: "string option \<Rightarrow> bool" where
  "truthy_str None = False"
| "truthy_str (Some s) = (s \<noteq> [])"

section \<open>Effects: a trace of external calls and an outcome\<close>

text \<open>
  A computation yields the external calls it made, in order, and how it ended: it
  returned a value, it threw, or it ended the process with \<open>process.exit\<close>. An
  \<open>await\<close> of a promise that rejects is a throw.
\<close>

datatype 'a outcome = Return 'a | Throw js_exn | Exit nat

type_synonym ('e, 'a) io = "'e list \<times> 'a outcome"

definition return :: "'a \<Rightarrow> ('e, 'a) io" where
  "return x = ([], Return x)"

definition throw :: "js_exn \<Rightarrow> ('e, 'a) io" where
  "throw e = ([], Throw e)"

definition process_exit :: "nat \<Rightarrow> ('e, 'a) io" where
  "process_exit c = ([], Exit c)"

definition emit :: "'e \<Rightarrow> ('e, unit) io" where
  "emit ev = ([ev], Return ())"

text \<open>An external call: it is logged, and it returns or throws what the world answers.\<close>

definition call :: "'e \<Rightarrow> js_exn + 'a \<Rightarrow> ('e, 'a) io" where
  "call ev r = ([ev], case r of Inl e \<Rightarrow> Throw e | Inr x \<Rightarrow> Return x)"

definition bind :: "('e, 'a) io \<Rightarrow> ('a \<Rightarrow> ('e, 'b) io) \<Rightarrow> ('e, 'b) io" where
  "bind m f =
     (case m of
        (es, Return x) \<Rightarrow> (case f x of (es', r) \<Rightarrow> (es @ es', r))
      | (es, Throw e) \<Rightarrow> (es, Throw e)
      | (es, Exit c) \<Rightarrow> (es, Exit c))"

text \<open>\<open>try { m } catch (e) { h e }\<close>: a throw is handled, an exit is not.\<close>

definition try_catch :: "('e, 'a) io \<Rightarrow> (js_exn \<Rightarrow> ('e, 'a) io) \<Rightarrow> ('e, 'a) io" where
  "try_catch m h =
     (case m of
        (es, Throw e) \<Rightarrow> (case h e of (es', r) \<Rightarrow> (es @ es', r))
      | (es, Return x) \<Rightarrow> (es, Return x)
      | (es, Exit c) \<Rightarrow> (es, Exit c))"

text \<open>The decimal text of a natural number, as a template literal prints a count.\<close>

fun dec :: "nat \<Rightarrow> string" where
  "dec n = (if n < 10 then [''0123456789'' ! n] else dec (n div 10) @ [''0123456789'' ! (n mod 10)])"

declare dec.simps [simp del]

text \<open>\<open>error instanceof Error ? error.message : fallback\<close>\<close>

fun message_or :: "js_exn \<Rightarrow> string \<Rightarrow> string" where
  "message_or (Error m) fallback = m"
| "message_or (APIError status m) fallback = m"
| "message_or Thrown fallback = fallback"

section \<open>Generation orchestrator (the CLI action)\<close>

text \<open>
  The regular expression \<open>/\.(png|jpg|jpeg|webp)$/i\<close>, searched from the left: at each
  position, a dot, then one of the alternatives compared without regard to case, then
  the end of the input. The result is the text before the match and the matched text.
\<close>

definition ext_alternatives :: "string list" where
  "ext_alternatives = [''png'', ''jpg'', ''jpeg'', ''webp'']"

fun match_ext :: "string \<Rightarrow> (string \<times> string) option" where
  "match_ext [] = None"
| "match_ext (c # cs) =
     (if c = CHR ''.'' \<and> toLowerCase cs \<in> set ext_alternatives then Some ([], c # cs)
      else map_option (\<lambda>(pre, m). (c # pre, m)) (match_ext cs))"

text \<open>\<open>options.variations || 1\<close>\<close>

definition variationCount :: "GenerateOptions \<Rightarrow> nat" where
  "variationCount options = (case variations options of None \<Rightarrow> 1 | Some n \<Rightarrow> if n = 0 then 1 else n)"

definition isMultiple :: "GenerateOptions \<Rightarrow> bool" where
  "isMultiple options = (variationCount options > 1)"

definition baseOutput :: "GenerateOptions \<Rightarrow> string" where
  "baseOutput options = or_default (output_opt options) DEFAULT_output"

text \<open>\<open>baseOutput.replace(re, '')\<close>: the match reaches the end, so what stays is the text before it.\<close>

definition basePath :: "GenerateOptions \<Rightarrow> string" where
  "basePath options =
     (case match_ext (baseOutput options) of None \<Rightarrow> baseOutput options | Some (pre, m) \<Rightarrow> pre)"

text \<open>\<open>baseOutput.match(re)?.[0] || '.png'\<close>: a match is never empty.\<close>

definition ext :: "GenerateOptions \<Rightarrow> string" where
  "ext options =
     (case match_ext (baseOutput options) of None \<Rightarrow> ''.png'' | Some (pre, m) \<Rightarrow> m)"

definition outputPath_for :: "GenerateOptions \<Rightarrow> nat \<Rightarrow> string" where
  "outputPath_for options i =
     (if isMultiple options then basePath options @ ''-v'' @ dec i @ ext options
      else baseOutput options)"

text \<open>
  What the action calls besides the registry. The provider's \<open>generate\<close> and the three
  post-processing utilities talk to services and libraries outside the program; each
  returns or throws. An answer may depend on when the call is made: the calls are told
  apart by the variation \<open>i\<close> during which they are made.
\<close>

record cli_world =
  provider_generate :: "ImageProvider \<Rightarrow> nat \<Rightarrow> GenerateOptions \<Rightarrow> js_exn + GenerationResult"
  removeBackground :: "nat \<Rightarrow> string \<Rightarrow> string \<Rightarrow> js_exn + string"
  addBackgroundColor :: "nat \<Rightarrow> string \<Rightarrow> string \<Rightarrow> string \<Rightarrow> js_exn + string"
  generateThumbnail :: "nat \<Rightarrow> string \<Rightarrow> js_number \<Rightarrow> js_exn + string"
  platform :: string

text \<open>
  The trace of the action. Updates of the spinner's text while it runs and the colours
  of the output are display only and are left out.
\<close>

datatype event =
    SpinnerStart string
  | CallGenerate nat GenerateOptions
  | CallRemoveBackground nat string string
  | CallAddBackgroundColor nat string string string
  | CallGenerateThumbnail nat string js_number
  | SpinnerFail string
  | SpinnerSucceed string
  | Summary "js_value list" string
  | SpawnOpen string

fun truthy_thumbnail :: "thumbnail option \<Rightarrow> bool" where
  "truthy_thumbnail None = False"
| "truthy_thumbnail (Some (ThumbnailFlag b)) = b"
| "truthy_thumbnail (Some (ThumbnailSize n)) = truthy_num (Some n)"

text \<open>\<open>typeof options.thumbnail === 'number' ? options.thumbnail : 256\<close>\<close>

fun thumbnail_size :: "thumbnail option \<Rightarrow> js_number" where
  "thumbnail_size (Some (ThumbnailSize n)) = n"
| "thumbnail_size t = Num 256"

text \<open>\<open>if (cond) { await f(...) }\<close>, the value of the call being dropped.\<close>

definition when_call :: "bool \<Rightarrow> 'e \<Rightarrow> js_exn + 'a \<Rightarrow> ('e, unit) io" where
  "when_call cond ev r = (if cond then bind (call ev r) (\<lambda>_. return ()) else return ())"

text \<open>
  The three post-processing steps of one variation, in their order. Each reads and
  writes the file at \<open>result.outputPath\<close>, which is a non-empty string when the step
  runs.
\<close>

definition postprocess :: "cli_world \<Rightarrow> GenerateOptions \<Rightarrow> nat \<Rightarrow> GenerationResult \<Rightarrow> (event, unit) io" where
  "postprocess w options i result =
     (let path = String_js (of_opt (outputPath result))
      in bind (when_call (flag (removeBg options) \<and> truthy_str (outputPath result))
                 (CallRemoveBackground i path path)
                 (removeBackground w i path path))
        (\<lambda>_. bind (when_call (truthy_str (addBg options) \<and> truthy_str (outputPath result))
                      (CallAddBackgroundColor i path path (String_js (of_opt (addBg options))))
                      (addBackgroundColor w i path path (String_js (of_opt (addBg options)))))
        (\<lambda>_. when_call (truthy_thumbnail (thumbnail options) \<and> truthy_str (outputPath result))
                      (CallGenerateThumbnail i path (thumbnail_size (thumbnail options)))
                      (generateThumbnail w i path (thumbnail_size (thumbnail options))))))"

text \<open>
  The loop \<open>for (let i = 1; i <= variationCount; i++)\<close>, from the value \<open>i\<close> of the
  counter and the paths collected so far. \<open>process.exit(1)\<close> ends the process on the
  spot: nothing of the loop or of the action runs after it.
\<close>

function variation_loop :: "cli_world \<Rightarrow> GenerateOptions \<Rightarrow> ImageProvider \<Rightarrow> nat \<Rightarrow> js_value list
    \<Rightarrow> (event, js_value list) io" where
  "variation_loop w options provider i generatedPaths =
     (if i \<le> variationCount options then
        bind (call (CallGenerate i (options\<lparr>output_opt := Some (outputPath_for options i)\<rparr>))
                (provider_generate w provider i (options\<lparr>output_opt := Some (outputPath_for options i)\<rparr>)))
          (\<lambda>result.
             if \<not> success result
             then bind (emit (SpinnerFail (''Generation failed: '' @ String_js (of_opt (error result)))))
                    (\<lambda>_. process_exit 1)
             else bind (postprocess w options i result)
                    (\<lambda>_. variation_loop w options provider (Suc i)
                            (generatedPaths @ [of_opt (outputPath result)])))
      else return generatedPaths)"
  by pat_completeness auto
termination
  by (relation "measure (\<lambda>(w, options, provider, i, generatedPaths). Suc (variationCount options) - i)") auto

declare variation_loop.simps [simp del]

text \<open>\<open>generatedPaths[0]\<close>\<close>

fun first_path :: "js_value list \<Rightarrow> js_value" where
  "first_path [] = Undefined"
| "first_path (p # ps) = p"

text \<open>Projections of a trace: the variation an event belongs to, and the calls of \<open>generate\<close>.\<close>

fun variation_of :: "event \<Rightarrow> nat option" where
  "variation_of (CallGenerate i r) = Some i"
| "variation_of (CallRemoveBackground i a b) = Some i"
| "variation_of (CallAddBackgroundColor i a b c) = Some i"
| "variation_of (CallGenerateThumbnail i a n) = Some i"
| "variation_of ev = None"

fun generate_calls :: "event list \<Rightarrow> (nat \<times> GenerateOptions) list" where
  "generate_calls [] = []"
| "generate_calls (CallGenerate i r # es) = (i, r) # generate_calls es"
| "generate_calls (ev # es) = generate_calls es"

text \<open>
  The action, run in process state \<open>s\<close> on the parsed options. The option parser admits
  a variation count from 1 to 10 only, and the action never sets \<open>useApi\<close>.
\<close>

definition action :: "google_module \<Rightarrow> cli_world \<Rightarrow> process \<Rightarrow> GenerateOptions \<Rightarrow> (event, unit) io" where
  "action g w s opts =
     (let options = opts\<lparr>useApi := None\<rparr>
      in bind (emit (SpinnerStart
                 (if isMultiple options
                  then ''Generating '' @ dec (variationCount options) @ '' variations with ''
                         @ model options @ ''...''
                  else ''Generating image with '' @ model options @ ''...'')))
         (\<lambda>_. try_catch
            (case fst (getProviderForModel g (model options) s) of
               Inl e \<Rightarrow> throw e
             | Inr provider \<Rightarrow>
                 bind (variation_loop w options provider 1 [])
                 (\<lambda>generatedPaths.
                    bind (emit (SpinnerSucceed
                            (if isMultiple options
                             then ''Generated '' @ dec (variationCount options) @ '' variations successfully!''
                             else ''Image generated successfully!'')))
                    (\<lambda>_. bind (emit (Summary generatedPaths (model options)))
                    (\<lambda>_. if platform w = ''darwin'' \<and> truthy (first_path generatedPaths)
                          then emit (SpawnOpen (String_js (first_path generatedPaths)))
                          else return ()))))
            (\<lambda>error. bind (emit (SpinnerFail (''Error: '' @ message_or error ''Unknown error'')))
                        (\<lambda>_. process_exit 1))))"

section \<open>Provider adapters\<close>

subsection \<open>Strings\<close>

definition toUpperChar :: "char \<Rightarrow> char" where
  "toUpperChar c =
     (case map_of (zip ''abcdefghijklmnopqrstuvwxyz'' ''ABCDEFGHIJKLMNOPQRSTUVWXYZ'') c of
        Some u \<Rightarrow> u
      | None \<Rightarrow> c)"

definition toUpperCase :: "string \<Rightarrow> string" where
  "toUpperCase s = map toUpperChar s"

fun startsWith :: "string \<Rightarrow> string \<Rightarrow> bool" where
  "startsWith s [] = True"
| "startsWith [] (c # cs) = False"
| "startsWith (d # ds) (c # cs) = (d = c \<and> startsWith ds cs)"

text \<open>\<open>s.includes(t)\<close>\<close>

fun js_includes :: "string \<Rightarrow> string \<Rightarrow> bool" where
  "js_includes [] t = (t = [])"
| "js_includes (c # cs) t = (startsWith (c # cs) t \<or> js_includes cs t)"


text \<open>\<open>s.split('/').pop()\<close>\<close>

definition split_slash_pop :: "string \<Rightarrow> string" where
  "split_slash_pop s = rev (takeWhile (\<lambda>c. c \<noteq> CHR ''/'') (rev s))"

text \<open>\<open>s.replace(':', 'x')\<close>: the first colon only.\<close>

fun replace_colon :: "string \<Rightarrow> string" where
  "replace_colon [] = []"
| "replace_colon (c # cs) = (if c = CHR '':'' then CHR ''x'' # cs else c # replace_colon cs)"

text \<open>The main prompt followed by the negative prompt, as the Google adapters build it.\<close>

definition with_negative_prompt :: "GenerateOptions \<Rightarrow> string" where
  "with_negative_prompt options =
     (if truthy_str (negativePrompt options)
      then prompt options @ '' Avoid: '' @ String_js (of_opt (negativePrompt options))
      else prompt options)"

text \<open>\<open>options.referenceImages?.length\<close> is truthy\<close>

fun has_reference_images :: "string list option \<Rightarrow> bool" where
  "has_reference_images None = False"
| "has_reference_images (Some paths) = (paths \<noteq> [])"

fun reference_images :: "string list option \<Rightarrow> string list" where
  "reference_images None = []"
| "reference_images (Some paths) = paths"

subsection \<open>Requests, responses and the outside world\<close>

record replicate_input =
  ri_prompt :: string
  ri_aspect_ratio :: string
  ri_output_format :: string
  ri_output_quality :: nat
  ri_negative_prompt :: "string option"
  ri_seed :: "js_number option"
  ri_num_inference_steps :: "js_number option"
  ri_guidance_scale :: "js_number option"
  ri_image :: "string option"
  ri_prompt_strength :: "rat option"

text \<open>What \<open>client.run\<close> resolves to: a string, an array, or something else.\<close>

datatype replicate_element = ElementString string | ElementOther

datatype replicate_output = OutputString string | OutputArray "replicate_element list" | OutputOther

record openai_edit_request =
  oe_model :: string
  oe_image_data :: string
  oe_image_name :: string
  oe_prompt :: string
  oe_n :: js_number
  oe_size :: js_value

record openai_generate_request =
  og_model :: string
  og_prompt :: string
  og_n :: js_number
  og_size :: js_value
  og_quality :: string
  og_background :: string
  og_output_format :: string

record image_data =
  b64_json :: "string option"
  url :: "string option"

text \<open>A content part sent to or received from a Gemini model.\<close>

datatype part = TextPart string | InlineDataPart js_value string

datatype genai_contents = PlainContents string | PartContents "part list"

record genai_request =
  gr_model :: js_value
  gr_contents :: genai_contents
  gr_aspectRatio :: string
  gr_imageSize :: "string option"

text \<open>
  A part of a response: its \<open>text\<close> and its \<open>inlineData.data\<close>, where present. A
  response is read through \<open>candidates?.[0]\<close> and \<open>content?.parts\<close>: \<open>None\<close> when a link of
  that chain is missing, else the parts of the first candidate.
\<close>

record response_part =
  rp_text :: "string option"
  rp_data :: "string option"

record http_response =
  ok :: bool
  statusText :: string
  body :: string

text \<open>
  Everything an adapter reaches outside the program, as the answers it gets: file
  reads, the three SDK clients, the \<open>gemini\<close> executable, \<open>fetch\<close>, and the file system.
  Three library functions whose results are only passed on are taken as given as well:
  \<open>path.dirname\<close>, the decimal text of a number, and the list of all matches of the
  path pattern \<open>/\/[^\s`'"*?]+\.(?:png|jpg|jpeg|webp)/g\<close> in a text.
\<close>

record provider_world =
  readImageAsBase64 :: "string \<Rightarrow> js_exn + string"
  readFileSync :: "string \<Rightarrow> js_exn + string"
  replicate_run :: "js_value \<Rightarrow> replicate_input \<Rightarrow> js_exn + replicate_output"
  images_edit :: "openai_edit_request \<Rightarrow> js_exn + image_data list option"
  images_generate :: "openai_generate_request \<Rightarrow> js_exn + image_data list option"
  generative_ai_generateContent :: "js_value \<Rightarrow> part list \<Rightarrow> js_exn + response_part list option"
  genai_generateContent :: "genai_request \<Rightarrow> js_exn + response_part list option"
  runGeminiCli :: "string \<Rightarrow> js_exn + string \<times> nat"
  fetch :: "string \<Rightarrow> js_exn + http_response"
  mkdir :: "string \<Rightarrow> js_exn + unit"
  Bun_write :: "string \<Rightarrow> string \<Rightarrow> js_exn + unit"
  dirname :: "string \<Rightarrow> string"
  number_text :: "js_number \<Rightarrow> string"
  image_path_matches :: "string \<Rightarrow> string list"

datatype effect =
    ReadFile string
  | ReplicateRun js_value replicate_input
  | ImagesEdit openai_edit_request
  | ImagesGenerate openai_generate_request
  | GenerativeAIGenerateContent js_value "part list"
  | GenAIGenerateContent genai_request
  | SpawnGeminiCli string
  | Fetch string
  | Mkdir string
  | WriteFile string string

subsection \<open>Saving an image\<close>

text \<open>\<open>downloadImage\<close>, which \<open>saveImage\<close> of the base class calls.\<close>

definition downloadImage :: "provider_world \<Rightarrow> string \<Rightarrow> string \<Rightarrow> (effect, string) io" where
  "downloadImage w u outPath =
     bind (call (Fetch u) (fetch w u))
     (\<lambda>response.
        if \<not> ok response
        then throw (Error (''Failed to download image: '' @ statusText response))
        else bind (call (Mkdir (dirname w outPath)) (mkdir w (dirname w outPath)))
             (\<lambda>_. bind (call (WriteFile outPath (body response)) (Bun_write w outPath (body response)))
             (\<lambda>_. return outPath)))"

definition saveImage :: "provider_world \<Rightarrow> string \<Rightarrow> string \<Rightarrow> (effect, string) io" where
  "saveImage w u outPath = downloadImage w u outPath"

text \<open>The decoded bytes are identified with their base64 text.\<close>

definition saveBase64Image :: "provider_world \<Rightarrow> string \<Rightarrow> string \<Rightarrow> (effect, string) io" where
  "saveBase64Image w base64 outPath =
     bind (call (WriteFile outPath base64) (Bun_write w outPath base64))
     (\<lambda>_. return outPath)"

definition succeeded :: "GenerateOptions \<Rightarrow> string \<Rightarrow> js_number option \<Rightarrow> GenerationResult" where
  "succeeded options path sd =
     \<lparr>success = True, outputPath = Some path, error = None,
      metadata = Some \<lparr>meta_model = model options, meta_prompt = prompt options, meta_seed = sd\<rparr>\<rparr>"

subsection \<open>Replicate\<close>

definition FLUX_MODELS :: js_object where
  "FLUX_MODELS =
     [(''flux'', ''black-forest-labs/flux-1.1-pro''),
      (''flux-schnell'', ''black-forest-labs/flux-schnell''),
      (''flux-pro'', ''black-forest-labs/flux-pro'')]"

definition replicate_base_input :: "GenerateOptions \<Rightarrow> replicate_input" where
  "replicate_base_input options =
     \<lparr>ri_prompt = prompt options,
      ri_aspect_ratio = or_default (aspectRatio options) DEFAULT_aspectRatio,
      ri_output_format = ''png'',
      ri_output_quality = 100,
      ri_negative_prompt = (if truthy_str (negativePrompt options) then negativePrompt options else None),
      ri_seed = seed options,
      ri_num_inference_steps = (if truthy_num (steps options) then steps options else None),
      ri_guidance_scale = (if truthy_num (guidance options) then guidance options else None),
      ri_image = None,
      ri_prompt_strength = None\<rparr>"

text \<open>\<open>Array.isArray(output) ? output[0] : output\<close>, and whether it is a string.\<close>

fun replicate_imageUrl :: "replicate_output \<Rightarrow> string option" where
  "replicate_imageUrl (OutputString u) = Some u"
| "replicate_imageUrl (OutputArray (ElementString u # rest)) = Some u"
| "replicate_imageUrl out = None"

text \<open>
  The \<open>input\<close> of the run: the base input, and with a reference image the first one,
  read and attached as a data URI, with the fixed prompt strength 0.8.
\<close>

definition replicate_build_input :: "provider_world \<Rightarrow> GenerateOptions \<Rightarrow> (effect, replicate_input) io" where
  "replicate_build_input w options =
     (if has_reference_images (referenceImages options)
      then bind (call (ReadFile (hd (reference_images (referenceImages options))))
                   (readImageAsBase64 w (hd (reference_images (referenceImages options)))))
           (\<lambda>base64. return ((replicate_base_input options)
              \<lparr>ri_image := Some (''data:''
                   @ String_js (getMimeType (hd (reference_images (referenceImages options))))
                   @ '';base64,'' @ base64),
               ri_prompt_strength := Some (4 / 5)\<rparr>))
      else return (replicate_base_input options))"

definition replicate_save :: "provider_world \<Rightarrow> GenerateOptions \<Rightarrow> replicate_output \<Rightarrow> (effect, GenerationResult) io" where
  "replicate_save w options out =
     (case replicate_imageUrl out of
        None \<Rightarrow> return (failure ''Unexpected response format from Replicate'')
      | Some imageUrl \<Rightarrow>
          bind (saveImage w imageUrl (or_default (output_opt options) DEFAULT_output))
          (\<lambda>_. return (succeeded options (or_default (output_opt options) DEFAULT_output) (seed options))))"

text \<open>The body of the \<open>try\<close> block of \<open>ReplicateProvider.generate\<close>.\<close>

definition ReplicateProvider_try :: "provider_world \<Rightarrow> js_value \<Rightarrow> GenerateOptions \<Rightarrow> (effect, GenerationResult) io" where
  "ReplicateProvider_try w modelId options =
     bind (replicate_build_input w options)
     (\<lambda>input. bind (call (ReplicateRun modelId input) (replicate_run w modelId input))
     (\<lambda>out. replicate_save w options out))"

definition ReplicateProvider_generate :: "provider_world \<Rightarrow> ImageProvider \<Rightarrow> GenerateOptions \<Rightarrow> (effect, GenerationResult) io" where
  "ReplicateProvider_generate w this options =
     (let modelId = obj_get FLUX_MODELS (model options)
      in if \<not> truthy modelId
         then return (failure (''Unknown Replicate model: '' @ model options))
         else try_catch (ReplicateProvider_try w modelId options)
                (\<lambda>error. return (failure (message_or error ''Unknown error occurred''))))"

subsection \<open>OpenAI\<close>

definition ASPECT_TO_OPENAI_SIZE :: js_object where
  "ASPECT_TO_OPENAI_SIZE =
     [(''1:1'', ''1024x1024''),
      (''16:9'', ''1792x1024''),
      (''9:16'', ''1024x1792''),
      (''4:3'', ''1024x1024''),
      (''3:4'', ''1024x1024''),
      (''3:2'', ''1792x1024''),
      (''2:3'', ''1024x1792''),
      (''4:5'', ''1024x1024''),
      (''5:4'', ''1024x1024''),
      (''21:9'', ''1792x1024'')]"

definition openai_size :: "GenerateOptions \<Rightarrow> js_value" where
  "openai_size options =
     js_or (of_opt (size_opt options))
       (js_or (obj_get ASPECT_TO_OPENAI_SIZE (or_default (aspectRatio options) DEFAULT_aspectRatio))
          (Str ''1024x1024''))"

text \<open>\<open>options.numImages || 1\<close>\<close>

definition openai_n :: "GenerateOptions \<Rightarrow> js_number" where
  "openai_n options = (if truthy_num (numImages options) then the (numImages options) else Num 1)"

text \<open>
  What both branches do with the response: \<open>response.data?.[0]\<close>, then \<open>b64_json\<close>, then
  \<open>url\<close>. The result is \<open>None\<close> when the image was saved and the failure to return
  otherwise.
\<close>

definition openai_save :: "provider_world \<Rightarrow> image_data list option \<Rightarrow> string \<Rightarrow> (effect, GenerationResult option) io" where
  "openai_save w response outPath =
     (case response of
        None \<Rightarrow> return (Some (failure ''No image data in response''))
      | Some [] \<Rightarrow> return (Some (failure ''No image data in response''))
      | Some (imageData # rest) \<Rightarrow>
          if truthy_str (b64_json imageData)
          then bind (saveBase64Image w (String_js (of_opt (b64_json imageData))) outPath) (\<lambda>_. return None)
          else if truthy_str (url imageData)
          then bind (saveImage w (String_js (of_opt (url imageData))) outPath) (\<lambda>_. return None)
          else return (Some (failure ''No image data in response'')))"

definition openai_edit_request_of :: "GenerateOptions \<Rightarrow> string \<Rightarrow> openai_edit_request" where
  "openai_edit_request_of options imageBuffer =
     \<lparr>oe_model = ''gpt-image-1'',
      oe_image_data = imageBuffer,
      oe_image_name = or_default (Some (split_slash_pop (hd (reference_images (referenceImages options)))))
                        ''image.png'',
      oe_prompt = prompt options,
      oe_n = openai_n options,
      oe_size = openai_size options\<rparr>"

definition openai_generate_request_of :: "GenerateOptions \<Rightarrow> openai_generate_request" where
  "openai_generate_request_of options =
     \<lparr>og_model = ''gpt-image-1'',
      og_prompt = prompt options,
      og_n = openai_n options,
      og_size = openai_size options,
      og_quality = (if quality options = Some ''hd'' then ''high'' else ''medium''),
      og_background = (if flag (transparent options) then ''transparent'' else ''opaque''),
      og_output_format = ''png''\<rparr>"

definition OpenAIProvider_try :: "provider_world \<Rightarrow> GenerateOptions \<Rightarrow> (effect, GenerationResult) io" where
  "OpenAIProvider_try w options =
     (let outPath = or_default (output_opt options) DEFAULT_output;
          isEditMode = (has_reference_images (referenceImages options) \<and> model options = ''gpt-image-1.5'')
      in bind
           (if isEditMode \<and> has_reference_images (referenceImages options)
            then bind (call (ReadFile (hd (reference_images (referenceImages options))))
                         (readFileSync w (hd (reference_images (referenceImages options)))))
                 (\<lambda>imageBuffer.
                    bind (call (ImagesEdit (openai_edit_request_of options imageBuffer))
                            (images_edit w (openai_edit_request_of options imageBuffer)))
                    (\<lambda>response. openai_save w response outPath))
            else bind (call (ImagesGenerate (openai_generate_request_of options))
                         (images_generate w (openai_generate_request_of options)))
                 (\<lambda>response. openai_save w response outPath))
           (\<lambda>failed. case failed of
                        Some result \<Rightarrow> return result
                      | None \<Rightarrow> return (succeeded options outPath None)))"

text \<open>\<open>${error.status}\<close>: the HTTP status of an \<open>APIError\<close>, which can be \<open>undefined\<close>.\<close>

fun status_text :: "nat option \<Rightarrow> string" where
  "status_text None = ''undefined''"
| "status_text (Some n) = dec n"

fun OpenAIProvider_catch :: "js_exn \<Rightarrow> GenerationResult" where
  "OpenAIProvider_catch (APIError status m) =
     failure (''OpenAI API Error ('' @ status_text status @ ''): '' @ m)"
| "OpenAIProvider_catch e = failure (message_or e ''Unknown error occurred'')"

definition OpenAIProvider_generate :: "provider_world \<Rightarrow> ImageProvider \<Rightarrow> GenerateOptions \<Rightarrow> (effect, GenerationResult) io" where
  "OpenAIProvider_generate w this options =
     try_catch (OpenAIProvider_try w options) (\<lambda>error. return (OpenAIProvider_catch error))"

subsection \<open>Google, on the \<open>@google/generative-ai\<close> SDK (\<open>providers/google.ts\<close>)\<close>

definition generative_ai_modelMap :: js_object where
  "generative_ai_modelMap =
     [(''imagen-3'', ''imagen-3.0-generate-002''),
      (''imagen-3-fast'', ''imagen-3.0-fast-generate-001''),
      (''imagen-4'', ''imagen-4.0-generate-preview-05-20''),
      (''nano-banana'', ''gemini-2.0-flash-exp''),
      (''nano-banana-pro'', ''gemini-2.0-flash-exp'')]"

text \<open>
  The loop over the reference images: each is read and becomes an inline-data part; a
  read that throws ends the loop.
\<close>

fun read_reference_parts :: "provider_world \<Rightarrow> string list \<Rightarrow> (effect, part list) io" where
  "read_reference_parts w [] = return []"
| "read_reference_parts w (imagePath # rest) =
     bind (call (ReadFile imagePath) (readImageAsBase64 w imagePath))
     (\<lambda>base64. bind (read_reference_parts w rest)
     (\<lambda>parts. return (InlineDataPart (getMimeType imagePath) base64 # parts)))"

text \<open>What the adapter does with the response.\<close>

definition generative_ai_save :: "provider_world \<Rightarrow> GenerateOptions \<Rightarrow> response_part list option \<Rightarrow> (effect, GenerationResult) io" where
  "generative_ai_save w options response =
     (let outPath = or_default (output_opt options) DEFAULT_output
      in case response of
           None \<Rightarrow> return (failure ''No image generated - check if the prompt was blocked'')
         | Some [] \<Rightarrow> return (failure ''No image generated - check if the prompt was blocked'')
         | Some (first # rest) \<Rightarrow>
             if truthy_str (rp_data first)
             then bind (saveBase64Image w (String_js (of_opt (rp_data first))) outPath)
                  (\<lambda>_. return (succeeded options outPath None))
             else return (failure ''Unexpected response format from Google API''))"

definition GoogleProvider_GenerativeAI_try :: "provider_world \<Rightarrow> GenerateOptions \<Rightarrow> (effect, GenerationResult) io" where
  "GoogleProvider_GenerativeAI_try w options =
     (let modelName = js_or (obj_get generative_ai_modelMap (model options)) (Str ''gemini-2.0-flash-exp'');
          enhancedPrompt = with_negative_prompt options
      in bind (read_reference_parts w (reference_images (referenceImages options)))
         (\<lambda>images.
            bind (call (GenerativeAIGenerateContent modelName (images @ [TextPart enhancedPrompt]))
                    (generative_ai_generateContent w modelName (images @ [TextPart enhancedPrompt])))
            (\<lambda>response. generative_ai_save w options response)))"

definition GoogleProvider_GenerativeAI_catch :: "js_exn \<Rightarrow> GenerationResult" where
  "GoogleProvider_GenerativeAI_catch e =
     (let errorMessage = message_or e ''Unknown error occurred''
      in if js_includes errorMessage ''SAFETY''
         then failure ''Content blocked by safety filters. Try rephrasing your prompt.''
         else if js_includes errorMessage ''quota'' \<or> js_includes errorMessage ''RESOURCE_EXHAUSTED''
         then failure ''API quota exceeded. Please try again later.''
         else failure errorMessage)"

definition GoogleProvider_GenerativeAI_generate :: "provider_world \<Rightarrow> ImageProvider \<Rightarrow> GenerateOptions \<Rightarrow> (effect, GenerationResult) io" where
  "GoogleProvider_GenerativeAI_generate w this options =
     try_catch (GoogleProvider_GenerativeAI_try w options)
       (\<lambda>error. return (GoogleProvider_GenerativeAI_catch error))"

subsection \<open>Google, on the \<open>@google/genai\<close> SDK\<close>

text \<open>
  The second adapter and the API path of the CLI-capable one have the same \<open>try\<close> block
  and the same \<open>catch\<close> block, word for word; they are modelled once.
\<close>

definition genai_modelMap :: js_object where
  "genai_modelMap =
     [(''imagen-3'', ''imagen-3.0-generate-002''),
      (''imagen-3-fast'', ''imagen-3.0-fast-generate-001''),
      (''imagen-4'', ''gemini-3-pro-image-preview''),
      (''nano-banana'', ''gemini-2.5-flash-image''),
      (''nano-banana-pro'', ''gemini-3-pro-image-preview'')]"

definition genai_imageSize :: "GenerateOptions \<Rightarrow> string option" where
  "genai_imageSize options =
     (if truthy_str (size_opt options) \<and>
         toUpperCase (String_js (of_opt (size_opt options))) \<in> set [''1K'', ''2K'', ''4K'']
      then Some (toUpperCase (String_js (of_opt (size_opt options))))
      else None)"

definition genai_request_of :: "GenerateOptions \<Rightarrow> part list \<Rightarrow> genai_request" where
  "genai_request_of options images =
     \<lparr>gr_model = js_or (obj_get genai_modelMap (model options)) (Str ''gemini-2.5-flash-image''),
      gr_contents = (if has_reference_images (referenceImages options)
                     then PartContents (TextPart (with_negative_prompt options) # images)
                     else PlainContents (with_negative_prompt options)),
      gr_aspectRatio = or_default (aspectRatio options) DEFAULT_aspectRatio,
      gr_imageSize = genai_imageSize options\<rparr>"

text \<open>\<open>parts.find(p => p.inlineData?.data)\<close> and \<open>parts.find(p => p.text)\<close>\<close>

definition find_image_part :: "response_part list \<Rightarrow> response_part option" where
  "find_image_part parts = find (\<lambda>p. truthy_str (rp_data p)) parts"

definition find_text_part :: "response_part list \<Rightarrow> response_part option" where
  "find_text_part parts = find (\<lambda>p. truthy_str (rp_text p)) parts"

text \<open>What the adapter does with the response.\<close>

definition genai_save :: "provider_world \<Rightarrow> GenerateOptions \<Rightarrow> response_part list option \<Rightarrow> (effect, GenerationResult) io" where
  "genai_save w options response =
     (let outPath = or_default (output_opt options) DEFAULT_output
      in case response of
           None \<Rightarrow> return (failure ''No content generated - check if the prompt was blocked'')
         | Some [] \<Rightarrow> return (failure ''No content generated - check if the prompt was blocked'')
         | Some (first # rest) \<Rightarrow>
             (case find_image_part (first # rest) of
                Some imagePart \<Rightarrow>
                  bind (saveBase64Image w (String_js (of_opt (rp_data imagePart))) outPath)
                  (\<lambda>_. return (succeeded options outPath None))
              | None \<Rightarrow>
                  return (failure
                    (case find_text_part (first # rest) of
                       Some textPart \<Rightarrow> String_js (of_opt (rp_text textPart))
                     | None \<Rightarrow> ''No image in response - model may have declined''))))"

definition GoogleProvider_GenAI_try :: "provider_world \<Rightarrow> GenerateOptions \<Rightarrow> (effect, GenerationResult) io" where
  "GoogleProvider_GenAI_try w options =
     bind (if has_reference_images (referenceImages options)
           then read_reference_parts w (reference_images (referenceImages options))
           else return [])
     (\<lambda>images.
        bind (call (GenAIGenerateContent (genai_request_of options images))
                (genai_generateContent w (genai_request_of options images)))
        (\<lambda>response. genai_save w options response))"

definition GoogleProvider_GenAI_catch :: "js_exn \<Rightarrow> GenerationResult" where
  "GoogleProvider_GenAI_catch e =
     (let errorMessage = message_or e ''Unknown error occurred''
      in if js_includes errorMessage ''SAFETY'' \<or> js_includes errorMessage ''blocked''
         then failure ''Content blocked by safety filters. Try rephrasing your prompt.''
         else if js_includes errorMessage ''quota'' \<or> js_includes errorMessage ''RESOURCE_EXHAUSTED''
         then failure ''API quota exceeded. Please try again later.''
         else failure errorMessage)"

definition GoogleProvider_GenAI_generate :: "provider_world \<Rightarrow> ImageProvider \<Rightarrow> GenerateOptions \<Rightarrow> (effect, GenerationResult) io" where
  "GoogleProvider_GenAI_generate w this options =
     try_catch (GoogleProvider_GenAI_try w options)
       (\<lambda>error. return (GoogleProvider_GenAI_catch error))"

subsection \<open>Google, CLI-capable\<close>

definition GEMINI_CLI :: string where
  "GEMINI_CLI = ''/opt/homebrew/bin/gemini''"

definition isNanoBanana :: "string \<Rightarrow> bool" where
  "isNanoBanana m = (m = ''nano-banana'' \<or> m = ''nano-banana-pro'')"

text \<open>The em dash that separates the directives, in UTF-8.\<close>

definition em_dash :: string where
  "em_dash = [CHR 0xE2, CHR 0x80, CHR 0x94]"

fun number_is :: "js_number option \<Rightarrow> js_number \<Rightarrow> bool" where
  "number_is (Some (Num a)) (Num b) = (a = b)"
| "number_is x y = False"

fun number_greater :: "js_number option \<Rightarrow> rat \<Rightarrow> bool" where
  "number_greater (Some (Num a)) b = (a > b)"
| "number_greater x b = False"

text \<open>The directives \<open>opts\<close> that \<open>generateViaCli\<close> appends to the prompt, in their order.\<close>

definition cli_directives :: "provider_world \<Rightarrow> GenerateOptions \<Rightarrow> string list" where
  "cli_directives w options =
     [''aspect_ratio: '' @ replace_colon (or_default (aspectRatio options) DEFAULT_aspectRatio)]
     @ map (\<lambda>r. ''Reference image path: '' @ r) (reference_images (referenceImages options))
     @ (if truthy_str (size_opt options) then [''Resolution: '' @ String_js (of_opt (size_opt options))] else [])
     @ (if flag (transparent options) then [''Use transparent background''] else [])
     @ (if truthy_num (seed options) then [''Random seed: '' @ number_text w (the (seed options))] else [])
     @ (if truthy_str (style options) \<and> style options \<noteq> Some DEFAULT_style
        then [''Style: '' @ String_js (of_opt (style options))] else [])
     @ (if truthy_str (quality options) \<and> quality options \<noteq> Some DEFAULT_quality
        then [''Quality: '' @ String_js (of_opt (quality options))] else [])
     @ (if truthy_num (numImages options) \<and> number_greater (numImages options) 1
        then [''Generate '' @ number_text w (the (numImages options)) @ '' images''] else [])
     @ (if truthy_num (steps options) \<and> \<not> number_is (steps options) DEFAULT_steps
        then [''Inference steps: '' @ number_text w (the (steps options))] else [])
     @ (if truthy_num (guidance options) \<and> \<not> number_is (guidance options) DEFAULT_guidance
        then [''Guidance scale: '' @ number_text w (the (guidance options))] else [])
     @ [''Output destination: '' @ dirname w (or_default (output_opt options) DEFAULT_output)]"

definition cli_fullPrompt :: "provider_world \<Rightarrow> GenerateOptions \<Rightarrow> string" where
  "cli_fullPrompt w options =
     with_negative_prompt options @ '' '' @ em_dash @ join ('' '' @ em_dash) (cli_directives w options)"

text \<open>\<open>extractImagePath\<close>: the last match of the path pattern, \<open>null\<close> without a match.\<close>

definition extractImagePath :: "provider_world \<Rightarrow> string \<Rightarrow> string option" where
  "extractImagePath w text = (case image_path_matches w text of [] \<Rightarrow> None | ms \<Rightarrow> Some (last ms))"

definition generateViaCli_try :: "provider_world \<Rightarrow> GenerateOptions \<Rightarrow> (effect, GenerationResult) io" where
  "generateViaCli_try w options =
     bind (call (SpawnGeminiCli (cli_fullPrompt w options)) (runGeminiCli w (cli_fullPrompt w options)))
     (\<lambda>(stdout, exitCode).
        if exitCode \<noteq> 0
        then return (failure (''Gemini CLI exited with code '' @ dec exitCode @ '':'' @ [CHR 0x0A] @ stdout))
        else if \<not> truthy_str (extractImagePath w stdout)
        then return (failure (''Could not extract output path from Gemini CLI output:'' @ [CHR 0x0A] @ stdout))
        else return (succeeded options (String_js (of_opt (extractImagePath w stdout))) None))"

definition generateViaCli_catch :: "js_exn \<Rightarrow> GenerationResult" where
  "generateViaCli_catch e =
     (let msg = message_or e ''Unknown error''
      in if js_includes msg ''ENOENT''
         then failure (''Gemini CLI not found at '' @ GEMINI_CLI @ ''. Install it or use --api flag.'')
         else failure msg)"

definition generateViaCli :: "provider_world \<Rightarrow> GenerateOptions \<Rightarrow> (effect, GenerationResult) io" where
  "generateViaCli w options =
     try_catch (generateViaCli_try w options) (\<lambda>error. return (generateViaCli_catch error))"

definition GoogleProvider_GenAICli_generate :: "provider_world \<Rightarrow> ImageProvider \<Rightarrow> GenerateOptions \<Rightarrow> (effect, GenerationResult) io" where
  "GoogleProvider_GenAICli_generate w this options =
     (if isNanoBanana (model options) \<and> \<not> flag (useApi options)
      then generateViaCli w options
      else if client this = None
      then return (failure (''GOOGLE_API_KEY or GEMINI_API_KEY environment variable is required. ''
                            @ ''For nanobanana models, omit --api to use Gemini CLI instead.''))
      else try_catch (GoogleProvider_GenAI_try w options)
             (\<lambda>error. return (GoogleProvider_GenAI_catch error)))"

subsection \<open>Projections of an adapter's trace\<close>

text \<open>The text parts of a content list, joined.\<close>

fun part_texts :: "part list \<Rightarrow> string" where
  "part_texts [] = []"
| "part_texts (TextPart t # ps) = t @ part_texts ps"
| "part_texts (InlineDataPart m d # ps) = part_texts ps"


text \<open>An effect that reaches over the network or starts the \<open>gemini\<close> executable.\<close>

fun is_backend_call :: "effect \<Rightarrow> bool" where
  "is_backend_call (ReadFile p) = False"
| "is_backend_call (Mkdir p) = False"
| "is_backend_call (WriteFile p d) = False"
| "is_backend_call ev = True"

text \<open>A computation that does not end the process.\<close>

definition no_exit :: "('e, 'a) io \<Rightarrow> bool" where
  "no_exit m = (\<forall>c. snd m \<noteq> Exit c)"


section \<open>Concrete inputs\<close>

definition tok_env :: env where
  "tok_env = [''REPLICATE_API_TOKEN'' \<mapsto> ''r8_token'']"

definition replicate0 :: ImageProvider where
  "replicate0 = \<lparr>ref = 0, name = ''Replicate'', models = [''flux'', ''flux-schnell'', ''flux-pro''],
                  client = Some (ReplicateClient ''r8_token'')\<rparr>"

definition opts3 :: GenerateOptions where
  "opts3 = \<lparr>model = ''flux'', prompt = ''a red cube'', size_opt = None, aspectRatio = None,
             output_opt = Some ''/tmp/out.png'', referenceImages = None, transparent = None,
             removeBg = None, addBg = None, negativePrompt = None, thumbnail = None,
             variations = Some 3, seed = None, steps = None, guidance = None, quality = None,
             style = None, numImages = None, useApi = None\<rparr>"

text \<open>A world in which the second call of \<open>generate\<close> fails and every other call succeeds.\<close>

definition world_fail2 :: cli_world where
  "world_fail2 =
     \<lparr>provider_generate = (\<lambda>provider i request.
          if i = 2 then Inr (failure ''API quota exceeded. Please try again later.'')
          else Inr \<lparr>success = True, outputPath = output_opt request, error = None, metadata = None\<rparr>),
      removeBackground = (\<lambda>i inputPath outputPath. Inr outputPath),
      addBackgroundColor = (\<lambda>i inputPath outputPath hexColor. Inr outputPath),
      generateThumbnail = (\<lambda>i inputPath n. Inr inputPath),
      platform = ''linux''\<rparr>"

definition request3 :: "nat \<Rightarrow> GenerateOptions" where
  "request3 i = opts3\<lparr>output_opt := Some (''/tmp/out-v'' @ dec i @ ''.png'')\<rparr>"


definition opts_cube :: GenerateOptions where
  "opts_cube = \<lparr>model = ''flux'', prompt = ''a red cube'', size_opt = None, aspectRatio = None,
             output_opt = None, referenceImages = None, transparent = None,
             removeBg = None, addBg = None, negativePrompt = Some ''blurry'', thumbnail = None,
             variations = None, seed = None, steps = None, guidance = None, quality = None,
             style = None, numImages = None, useApi = None\<rparr>"

text \<open>A world without network, where files can be read and written.\<close>

definition world_offline :: provider_world where
  "world_offline =
     \<lparr>readImageAsBase64 = (\<lambda>p. Inr ''aGVsbG8=''),
      readFileSync = (\<lambda>p. Inr ''hello''),
      replicate_run = (\<lambda>m i. Inl (Error ''fetch failed'')),
      images_edit = (\<lambda>r. Inl (Error ''Connection error.'')),
      images_generate = (\<lambda>r. Inl (Error ''Connection error.'')),
      generative_ai_generateContent = (\<lambda>m ps. Inl (Error ''fetch failed'')),
      genai_generateContent = (\<lambda>r. Inl (Error ''fetch failed'')),
      runGeminiCli = (\<lambda>p. Inl (Error ''spawn /opt/homebrew/bin/gemini ENOENT'')),
      fetch = (\<lambda>u. Inl (Error ''fetch failed'')),
      mkdir = (\<lambda>p. Inr ()),
      Bun_write = (\<lambda>p d. Inr ()),
      dirname = (\<lambda>p. ''/tmp''),
      number_text = (\<lambda>n. ''0''),
      image_path_matches = (\<lambda>t. [])\<rparr>"

text \<open>A world in which the Gemini backend refuses the prompt.\<close>

definition world_safety :: provider_world where
  "world_safety = world_offline
     \<lparr>generative_ai_generateContent := (\<lambda>m ps. Inl (Error ''Candidate was blocked due to SAFETY''))\<rparr>"

definition google_no_client :: ImageProvider where
  "google_no_client = \<lparr>ref = 0, name = ''Google'', models = google_models, client = None\<rparr>"

definition opts_imagen :: GenerateOptions where
  "opts_imagen = opts_cube\<lparr>model := ''imagen-4''\<rparr>"

definition google0 :: ImageProvider where
  "google0 = \<lparr>ref = 0, name = ''Google'', models = google_models,
               client = Some (GoogleGenerativeAIClient ''AIza-key'')\<rparr>"



section \<open>Properties of \<open>getMimeType\<close>\<close>

lemma toLowerCase_append: "toLowerCase (a @ b) = toLowerCase a @ toLowerCase b"
  by (simp add: toLowerCase_def)

lemma toLowerChar_dot: "toLowerChar c = CHR ''.'' \<longleftrightarrow> c = CHR ''.''"
  by (auto simp: toLowerChar_def split: option.splits if_splits)

lemma toLowerCase_dot: "CHR ''.'' \<in> set (toLowerCase e) \<longleftrightarrow> CHR ''.'' \<in> set e"
proof
  assume "CHR ''.'' \<in> set (toLowerCase e)"
  then obtain c where "c \<in> set e" "toLowerChar c = CHR ''.''"
    by (auto simp: toLowerCase_def)
  then show "CHR ''.'' \<in> set e" by (simp add: toLowerChar_dot)
next
  assume "CHR ''.'' \<in> set e"
  then have "toLowerChar (CHR ''.'') \<in> set (toLowerCase e)"
    unfolding toLowerCase_def by (simp only: set_map) (rule imageI)
  then show "CHR ''.'' \<in> set (toLowerCase e)" by (simp add: toLowerChar_def)
qed

lemma split_dot_pop_ext:
  assumes "CHR ''.'' \<notin> set e"
  shows "split_dot_pop (s @ ''.'' @ e) = e"
proof -
  have "takeWhile (\<lambda>c. c \<noteq> CHR ''.'') (rev e @ CHR ''.'' # rev s) = rev e"
    using assms by (subst takeWhile_append2) auto
  then show ?thesis by (simp add: split_dot_pop_def)
qed

text \<open>
  What does hold: a path with a dot is classified by the lower-cased text after its
  last dot, as long as that text is not the name of a member every object inherits.
\<close>

lemma getMimeType_by_extension:
  assumes "CHR ''.'' \<notin> set e"
  shows "getMimeType (s @ ''.'' @ e) =
     (let x = toLowerCase e
      in if x = ''png'' then Str ''image/png''
         else if x = ''jpg'' \<or> x = ''jpeg'' then Str ''image/jpeg''
         else if x = ''webp'' then Str ''image/webp''
         else if x = ''gif'' then Str ''image/gif''
         else if x \<in> set Object_prototype_keys then Native x
         else Str ''image/png'')"
proof -
  have "CHR ''.'' \<notin> set (toLowerCase e)"
    using assms by (simp add: toLowerCase_dot)
  then have "split_dot_pop (toLowerCase s @ ''.'' @ toLowerCase e) = toLowerCase e"
    by (rule split_dot_pop_ext)
  moreover have "toLowerCase (s @ ''.'' @ e) = toLowerCase s @ ''.'' @ toLowerCase e"
    by (simp add: toLowerCase_append) (simp add: toLowerCase_def toLowerChar_def)
  ultimately have "split_dot_pop (toLowerCase (s @ ''.'' @ e)) = toLowerCase e"
    by simp
  then show ?thesis
    by (simp add: getMimeType_def Let_def obj_get_def mimeTypes_def js_or_def)
qed

lemma getMimeType_examples:
  "getMimeType ''a.PNG'' = Str ''image/png''"
  "getMimeType ''a.jpg'' = Str ''image/jpeg''"
  "getMimeType ''a.xyz'' = Str ''image/png''"
  by code_simp+

text \<open>
  C9. The claim: \<open>getMimeType\<close> maps a path ending in \<open>.png\<close> to \<open>image/png\<close>, in
  \<open>.jpg\<close> or \<open>.jpeg\<close> to \<open>image/jpeg\<close>, in \<open>.webp\<close> to \<open>image/webp\<close>, in \<open>.gif\<close> to
  \<open>image/gif\<close>, and every other input to the string \<open>image/png\<close>. The code breaks
  the last part. The path \<open>jpg\<close> has no dot, so it does not end in \<open>.jpg\<close>;
  \<open>split('.').pop()\<close> then yields the whole path and the result is \<open>image/jpeg\<close>. The
  path \<open>a.constructor\<close> has an extension that is no key of the table, but the table is
  an object literal and the lookup finds the inherited \<open>constructor\<close>: the result is
  that function, not a string.
\<close>

theorem getMimeType_other_inputs:
  "getMimeType ''jpg'' = Str ''image/jpeg'' \<and>
   getMimeType ''a.constructor'' = Native ''constructor''"
  by code_simp

section \<open>Properties of the provider registry\<close>

lemma MODEL_TO_PROVIDER_values:
  "map_of MODEL_TO_PROVIDER m = Some p \<Longrightarrow> p = ''replicate'' \<or> p = ''openai'' \<or> p = ''google''"
  by (auto simp: MODEL_TO_PROVIDER_def split: if_splits)

lemma MODEL_TO_PROVIDER_distinct: "distinct (map fst MODEL_TO_PROVIDER)"
  by (simp add: MODEL_TO_PROVIDER_def)

lemma obj_get_own: "map_of obj k = Some v \<Longrightarrow> obj_get obj k = Str v"
  by (simp add: obj_get_def)

lemma getProviderForModel_known:
  "map_of MODEL_TO_PROVIDER m = Some p \<Longrightarrow>
   getProviderForModel g m s = getOrCreateProvider g (Str p) s"
  by (frule MODEL_TO_PROVIDER_values) (auto simp: getProviderForModel_def obj_get_own)



lemma getOrCreateProvider_Inl:
  "getOrCreateProvider g n s = (Inl e, s') \<Longrightarrow>
     providers s' = providers s \<and> providers s n = None \<and> env s' = env s"
  by (auto simp: getOrCreateProvider_def new_def split: option.splits if_splits sum.splits prod.splits)

lemma getOrCreateProvider_inv:
  "registry_inv s \<Longrightarrow> getOrCreateProvider g n s = (r, s') \<Longrightarrow> registry_inv s'"
  by (auto simp: getOrCreateProvider_def new_def registry_inv_def
      split: option.splits if_splits sum.splits prod.splits)

lemma getProviderForModel_inv:
  "registry_inv s \<Longrightarrow> getProviderForModel g m s = (r, s') \<Longrightarrow> registry_inv s'"
  by (auto simp: getProviderForModel_def Let_def split: if_splits dest: getOrCreateProvider_inv)

lemma start_inv: "registry_inv (start e)"
  by (simp add: start_def registry_inv_def)

lemma getOrCreateProvider_Native:
  "registry_inv s \<Longrightarrow>
   getOrCreateProvider g (Native k) s =
     (Inl (Error (''Unknown provider: '' @ String_js (Native k))), s)"
  by (auto simp: getOrCreateProvider_def registry_inv_def split: option.splits)

text \<open>
  What does hold for a model that is no key of the routing table: the call throws and
  leaves the process as it was, so it never returns an instance, let alone \<open>null\<close> or
  \<open>undefined\<close>; and the error is the one that names the model unless the model is the
  name of a member every object inherits.
\<close>

lemma getProviderForModel_unknown_throws:
  "registry_inv s \<Longrightarrow> map_of MODEL_TO_PROVIDER m = None \<Longrightarrow>
   \<exists>e. getProviderForModel g m s = (Inl e, s)"
  by (auto simp: getProviderForModel_def obj_get_def getOrCreateProvider_Native Let_def)

lemma getProviderForModel_unknown_message:
  "map_of MODEL_TO_PROVIDER m = None \<Longrightarrow> m \<notin> set Object_prototype_keys \<Longrightarrow>
   getProviderForModel g m s =
     (Inl (Error (''Unknown model: '' @ m @ ''. Available models: ''
                   @ join '', '' (Object_keys MODEL_TO_PROVIDER))), s)"
  by (auto simp: getProviderForModel_def obj_get_def Let_def)

text \<open>
  C1. The claim: for every model string that is not a key of the routing table,
  \<open>getProviderForModel\<close> throws an error that names the unknown model. The model
  \<open>constructor\<close> is no key of the table, but \<open>MODEL_TO_PROVIDER[model]\<close> finds the
  inherited member, which is truthy, so the unknown-model check is passed and the error
  comes from \<open>getOrCreateProvider\<close> instead: an unknown \<^emph>\<open>provider\<close>, with the text of a
  native function in place of the model, and the model's name nowhere in the message.
\<close>

theorem getProviderForModel_inherited_key:
  "map_of MODEL_TO_PROVIDER ''constructor'' = None \<and>
   getProviderForModel g ''constructor'' (start e) =
     (Inl (Error (''Unknown provider: '' @ String_js (Native ''constructor''))), start e) \<and>
   \<not> js_includes (''Unknown provider: '' @ String_js (Native ''constructor'')) ''constructor''"
proof -
  have 1: "map_of MODEL_TO_PROVIDER ''constructor'' = None"
    by (simp add: MODEL_TO_PROVIDER_def)
  have 2: "obj_get MODEL_TO_PROVIDER ''constructor'' = Native ''constructor''"
    by (simp add: obj_get_def 1 Object_prototype_keys_def)
  have 3: "getProviderForModel g ''constructor'' (start e) =
     (Inl (Error (''Unknown provider: '' @ String_js (Native ''constructor''))), start e)"
    by (simp add: 2 getProviderForModel_def getOrCreateProvider_Native start_inv del: String_js.simps)
  have 4: "\<not> js_includes (''Unknown provider: '' @ String_js (Native ''constructor'')) ''constructor''"
    by code_simp
  from 1 3 4 show ?thesis by blast
qed

text \<open>
  Object identity. In a process that started empty, the instances in the \<open>providers\<close>
  map were allocated by constructor calls already logged, and two entries never hold
  the same object.
\<close>

lemma new_ReplicateProvider_ref: "new_ReplicateProvider e r = Inr p \<Longrightarrow> ref p = r"
  by (auto simp: new_ReplicateProvider_def Let_def split: if_splits)

lemma new_OpenAIProvider_ref: "new_OpenAIProvider e r = Inr p \<Longrightarrow> ref p = r"
  by (auto simp: new_OpenAIProvider_def Let_def split: if_splits)

lemma new_GoogleProvider_ref: "new_GoogleProvider g e r = Inr p \<Longrightarrow> ref p = r"
  by (cases g) (auto simp: new_GoogleProvider_GenerativeAI_def new_GoogleProvider_GenAI_def
       new_GoogleProvider_GenAICli_def Let_def split: if_splits)

lemma start_refs: "refs_inv (start e)"
  by (simp add: refs_inv_def start_def)

lemma refs_inv_new:
  assumes "refs_inv s"
  shows "refs_inv (s\<lparr>news := news s @ [cls]\<rparr>)"
  using assms unfolding refs_inv_def by (auto simp: less_Suc_eq)

lemma refs_inv_set:
  assumes "refs_inv s" "providers s n = None" "ref p = length (news s)"
  shows "refs_inv (s\<lparr>news := news s @ [cls], providers := (providers s)(n \<mapsto> p)\<rparr>)"
proof -
  from assms(1) have bound: "ref inst < length (news s)" if "providers s k = Some inst" for k inst
    using that unfolding refs_inv_def by blast
  from assms(1) have inj: "k = k'"
    if "providers s k = Some inst" "providers s k' = Some inst'" "ref inst = ref inst'"
    for k k' inst inst'
    using that unfolding refs_inv_def by blast
  have 1: "ref inst < length (news s @ [cls])"
    if "((providers s)(n \<mapsto> p)) k = Some inst" for k inst
    using that bound [of k inst] assms(3) by (cases "k = n") auto
  have 2: "k = k'"
    if "((providers s)(n \<mapsto> p)) k = Some inst" "((providers s)(n \<mapsto> p)) k' = Some inst'"
       "ref inst = ref inst'" for k k' inst inst'
  proof (cases "k = n")
    case True
    show ?thesis
    proof (cases "k' = n")
      case True
      with \<open>k = n\<close> show ?thesis by simp
    next
      case False
      with that(2) have "providers s k' = Some inst'" by simp
      from bound [OF this] that(1,3) True assms(3) show ?thesis by simp
    qed
  next
    case False
    with that(1) have k: "providers s k = Some inst" by simp
    show ?thesis
    proof (cases "k' = n")
      case True
      with that(2) have "inst' = p" by simp
      with bound [OF k] that(3) assms(3) show ?thesis by simp
    next
      case False
      with that(2) have "providers s k' = Some inst'" by simp
      from inj [OF k this that(3)] show ?thesis .
    qed
  qed
  from 1 2 show ?thesis unfolding refs_inv_def by (simp del: fun_upd_apply)
qed

lemma getOrCreateProvider_refs:
  assumes "refs_inv s" "getOrCreateProvider g n s = (r, s')"
  shows "refs_inv s'"
proof (cases "providers s n")
  case (Some inst)
  with assms show ?thesis by (simp add: getOrCreateProvider_def)
next
  case None
  have step: "refs_inv (snd (case new cls ctor s of
                   (Inl e, s') \<Rightarrow> (Inl e, s')
                 | (Inr provider, s') \<Rightarrow>
                     (Inr provider, s'\<lparr>providers := (providers s')(n \<mapsto> provider)\<rparr>)))"
    if "\<And>e r p. ctor e r = Inr p \<Longrightarrow> ref p = r" for cls ctor
  proof (cases "ctor (env s) (length (news s))")
    case (Inl e)
    then show ?thesis by (simp add: new_def refs_inv_new [OF assms(1)])
  next
    case (Inr p)
    from that [OF this] have "ref p = length (news s)" .
    from refs_inv_set [OF assms(1) None this] Inr show ?thesis by (simp add: new_def)
  qed
  from assms(2) None have "s' = s \<or>
      s' = snd (case new ''ReplicateProvider'' new_ReplicateProvider s of
                   (Inl e, s') \<Rightarrow> (Inl e, s')
                 | (Inr provider, s') \<Rightarrow>
                     (Inr provider, s'\<lparr>providers := (providers s')(n \<mapsto> provider)\<rparr>)) \<or>
      s' = snd (case new ''OpenAIProvider'' new_OpenAIProvider s of
                   (Inl e, s') \<Rightarrow> (Inl e, s')
                 | (Inr provider, s') \<Rightarrow>
                     (Inr provider, s'\<lparr>providers := (providers s')(n \<mapsto> provider)\<rparr>)) \<or>
      s' = snd (case new ''GoogleProvider'' (new_GoogleProvider g) s of
                   (Inl e, s') \<Rightarrow> (Inl e, s')
                 | (Inr provider, s') \<Rightarrow>
                     (Inr provider, s'\<lparr>providers := (providers s')(n \<mapsto> provider)\<rparr>))"
    by (auto simp: getOrCreateProvider_def split: if_splits)
  with assms(1) step [of new_ReplicateProvider, OF new_ReplicateProvider_ref]
    step [of new_OpenAIProvider, OF new_OpenAIProvider_ref]
    step [of "new_GoogleProvider g", OF new_GoogleProvider_ref]
  show ?thesis by auto
qed

lemma getProviderForModel_refs:
  "refs_inv s \<Longrightarrow> getProviderForModel g m s = (r, s') \<Longrightarrow> refs_inv s'"
  by (auto simp: getProviderForModel_def Let_def split: if_splits dest: getOrCreateProvider_refs)


lemma flux_obj: "obj_get MODEL_TO_PROVIDER ''flux'' = Str ''replicate''"
  by (simp add: obj_get_def MODEL_TO_PROVIDER_def)

lemma tok_env_token: "env_get tok_env ''REPLICATE_API_TOKEN'' = Str ''r8_token''"
  by (simp add: tok_env_def env_get_def)

lemma new_replicate0: "new_ReplicateProvider tok_env 0 = Inr replicate0"
  by (simp add: new_ReplicateProvider_def tok_env_token replicate0_def)

lemma flux_first_call:
  "getProviderForModel g ''flux'' (start tok_env) =
    (Inr replicate0,
     \<lparr>env = tok_env, providers = [Str ''replicate'' \<mapsto> replicate0],
      news = [''ReplicateProvider'']\<rparr>)"
  by (simp add: getProviderForModel_def flux_obj getOrCreateProvider_def start_def
       new_def new_replicate0)


text \<open>A cached instance stays cached: no registry call removes or replaces an entry.\<close>

lemma getOrCreateProvider_keeps:
  "providers s k = Some inst \<Longrightarrow> getOrCreateProvider g n s = (r, s') \<Longrightarrow>
   providers s' k = Some inst"
  by (auto simp: getOrCreateProvider_def new_def split: option.splits if_splits sum.splits prod.splits)

lemma getProviderForModel_keeps:
  "providers s k = Some inst \<Longrightarrow> getProviderForModel g m s = (r, s') \<Longrightarrow>
   providers s' k = Some inst"
  by (auto simp: getProviderForModel_def Let_def split: if_splits dest: getOrCreateProvider_keeps)

lemma new_ReplicateProvider_error_any_ref:
  "new_ReplicateProvider e r = Inl x \<Longrightarrow> new_ReplicateProvider e r' = Inl x"
  by (simp add: new_ReplicateProvider_def Let_def split: if_splits)

lemma new_OpenAIProvider_error_any_ref:
  "new_OpenAIProvider e r = Inl x \<Longrightarrow> new_OpenAIProvider e r' = Inl x"
  by (simp add: new_OpenAIProvider_def Let_def split: if_splits)

lemma new_GoogleProvider_error_any_ref:
  "new_GoogleProvider g e r = Inl x \<Longrightarrow> new_GoogleProvider g e r' = Inl x"
  by (cases g) (simp_all add: new_GoogleProvider_GenerativeAI_def new_GoogleProvider_GenAI_def
       new_GoogleProvider_GenAICli_def Let_def split: if_splits)

lemma getOrCreateProvider_Inl_again:
  assumes "getOrCreateProvider g (Str p) s = (Inl e, s')"
    and "p = ''replicate'' \<or> p = ''openai'' \<or> p = ''google''"
  shows "\<exists>cls. s' = s\<lparr>news := news s @ [cls]\<rparr> \<and>
           getOrCreateProvider g (Str p) s' = (Inl e, s\<lparr>news := news s @ [cls, cls]\<rparr>)"
proof -
  from assms(1) have n: "providers s (Str p) = None"
    by (simp add: getOrCreateProvider_def split: option.splits)
  from assms(2) consider "p = ''replicate''" | "p = ''openai''" | "p = ''google''" by blast
  then show ?thesis
  proof cases
    case 1
    with assms(1) n have "new_ReplicateProvider (env s) (length (news s)) = Inl e"
      and "s' = s\<lparr>news := news s @ [''ReplicateProvider'']\<rparr>"
      by (simp_all add: getOrCreateProvider_def new_def split: sum.splits)
    with 1 n show ?thesis
      by (intro exI [of _ "''ReplicateProvider''"])
         (simp add: getOrCreateProvider_def new_def
            new_ReplicateProvider_error_any_ref [of "env s" "length (news s)" e])
  next
    case 2
    with assms(1) n have "new_OpenAIProvider (env s) (length (news s)) = Inl e"
      and "s' = s\<lparr>news := news s @ [''OpenAIProvider'']\<rparr>"
      by (simp_all add: getOrCreateProvider_def new_def split: sum.splits)
    with 2 n show ?thesis
      by (intro exI [of _ "''OpenAIProvider''"])
         (simp add: getOrCreateProvider_def new_def
            new_OpenAIProvider_error_any_ref [of "env s" "length (news s)" e])
  next
    case 3
    with assms(1) n have "new_GoogleProvider g (env s) (length (news s)) = Inl e"
      and "s' = s\<lparr>news := news s @ [''GoogleProvider'']\<rparr>"
      by (simp_all add: getOrCreateProvider_def new_def split: sum.splits)
    with 3 n show ?thesis
      by (intro exI [of _ "''GoogleProvider''"])
         (simp add: getOrCreateProvider_def new_def
            new_GoogleProvider_error_any_ref [of g "env s" "length (news s)" e])
  qed
qed

text \<open>
  C3. A call for a model of the routing table that throws can only have thrown in the
  provider's constructor. The error reaches the caller; the \<open>providers\<close> map is as
  before and holds no entry for that provider; the constructor was run once. The next
  call for any model of the same provider runs the constructor again (one more
  constructor call is logged) instead of answering from the map; in the same
  environment it fails the same way and again stores nothing.
\<close>

theorem constructor_failure_not_cached:
  assumes "map_of MODEL_TO_PROVIDER m = Some p" "map_of MODEL_TO_PROVIDER m2 = Some p"
    and "getProviderForModel g m s = (Inl e, s')"
  shows "providers s' = providers s \<and> providers s' (Str p) = None \<and>
         length (news s') = Suc (length (news s)) \<and>
         (\<exists>s''. getProviderForModel g m2 s' = (Inl e, s'') \<and> providers s'' = providers s \<and>
                length (news s'') = Suc (length (news s')))"
proof -
  from assms have c: "getOrCreateProvider g (Str p) s = (Inl e, s')"
    by (simp add: getProviderForModel_known)
  have p: "p = ''replicate'' \<or> p = ''openai'' \<or> p = ''google''"
    using assms(1) by (rule MODEL_TO_PROVIDER_values)
  from c have 1: "providers s' = providers s" "providers s (Str p) = None"
    by (simp_all add: getOrCreateProvider_Inl)
  from getOrCreateProvider_Inl_again [OF c p] obtain cls where
    2: "s' = s\<lparr>news := news s @ [cls]\<rparr>"
    and 3: "getOrCreateProvider g (Str p) s' = (Inl e, s\<lparr>news := news s @ [cls, cls]\<rparr>)"
    by blast
  have 4: "getProviderForModel g m2 s' = (Inl e, s\<lparr>news := news s @ [cls, cls]\<rparr>)"
    using assms(2) 3 by (simp add: getProviderForModel_known)
  have 5: "length (news s') = Suc (length (news s))" by (subst 2) simp
  have 6: "length (news (s\<lparr>news := news s @ [cls, cls]\<rparr>)) = Suc (length (news s'))"
    by (subst 2) simp
  show ?thesis using 1 4 5 6 by simp
qed

lemma flux_no_token:
  "getProviderForModel g ''flux'' (start Map.empty) =
    (Inl (Error ''REPLICATE_API_TOKEN environment variable is required''),
     \<lparr>env = Map.empty, providers = Map.empty, news = [''ReplicateProvider'']\<rparr>)"
  by (simp add: getProviderForModel_def flux_obj getOrCreateProvider_def start_def
       new_def new_ReplicateProvider_def env_get_def)

theorem constructor_failure_not_cached_witness:
  "getProviderForModel GenAI ''flux'' (start Map.empty) =
     (Inl (Error ''REPLICATE_API_TOKEN environment variable is required''),
      \<lparr>env = Map.empty, providers = Map.empty, news = [''ReplicateProvider'']\<rparr>) \<and>
   (\<exists>s''. getProviderForModel GenAI ''flux-schnell''
            \<lparr>env = Map.empty, providers = Map.empty, news = [''ReplicateProvider'']\<rparr> =
           (Inl (Error ''REPLICATE_API_TOKEN environment variable is required''), s'') \<and>
         providers s'' = Map.empty \<and> length (news s'') = 2)"
proof -
  have 1: "map_of MODEL_TO_PROVIDER ''flux'' = Some ''replicate''"
    and 2: "map_of MODEL_TO_PROVIDER ''flux-schnell'' = Some ''replicate''"
    by (simp_all add: MODEL_TO_PROVIDER_def)
  from constructor_failure_not_cached [OF 1 2 flux_no_token [of GenAI]] have
    "\<exists>s''. getProviderForModel GenAI ''flux-schnell''
            \<lparr>env = Map.empty, providers = Map.empty, news = [''ReplicateProvider'']\<rparr> =
           (Inl (Error ''REPLICATE_API_TOKEN environment variable is required''), s'') \<and>
         providers s'' = Map.empty \<and> length (news s'') = 2"
    by (simp add: start_def numeral_2_eq_2)
  with flux_no_token [of GenAI] show ?thesis ..
qed

text \<open>
  Once the credential is there, the call that failed before constructs the instance:
  no failure was remembered.
\<close>

lemma retry_after_credential_set:
  "getProviderForModel g ''flux''
      \<lparr>env = tok_env, providers = Map.empty, news = [''ReplicateProvider'']\<rparr> =
     (Inr (replicate0\<lparr>ref := 1\<rparr>),
      \<lparr>env = tok_env, providers = [Str ''replicate'' \<mapsto> replicate0\<lparr>ref := 1\<rparr>],
       news = [''ReplicateProvider'', ''ReplicateProvider'']\<rparr>)"
  by (simp add: getProviderForModel_def flux_obj getOrCreateProvider_def
       new_def new_ReplicateProvider_def tok_env_token replicate0_def)

text \<open>
  C10. In every state of the process, with or without credentials in the environment,
  \<open>listModels\<close> returns the pairs of the routing table, one per model, in the order of
  the table, and hands the process back unchanged: no constructor call is logged and the
  \<open>providers\<close> map is the same.
\<close>

theorem listModels_frame:
  "listModels s =
     ([(''flux'', ''replicate''), (''flux-schnell'', ''replicate''), (''flux-pro'', ''replicate''),
       (''gpt-image-1'', ''openai''), (''gpt-image-1.5'', ''openai''),
       (''imagen-3'', ''google''), (''imagen-3-fast'', ''google''), (''imagen-4'', ''google''),
       (''nano-banana'', ''google''), (''nano-banana-pro'', ''google'')], s)
   \<and> map fst (fst (listModels s)) = Object_keys MODEL_TO_PROVIDER
   \<and> distinct (map fst (fst (listModels s)))
   \<and> (\<forall>m p. (m, p) \<in> set (fst (listModels s)) \<longleftrightarrow> map_of MODEL_TO_PROVIDER m = Some p)"
proof -
  have 0: "listModels s = (MODEL_TO_PROVIDER, s)"
    by (simp add: listModels_def Object_entries_def)
  have 1: "listModels s =
     ([(''flux'', ''replicate''), (''flux-schnell'', ''replicate''), (''flux-pro'', ''replicate''),
       (''gpt-image-1'', ''openai''), (''gpt-image-1.5'', ''openai''),
       (''imagen-3'', ''google''), (''imagen-3-fast'', ''google''), (''imagen-4'', ''google''),
       (''nano-banana'', ''google''), (''nano-banana-pro'', ''google'')], s)"
    unfolding 0 by (simp add: MODEL_TO_PROVIDER_def)
  have 2: "map fst (fst (listModels s)) = Object_keys MODEL_TO_PROVIDER"
    by (simp add: 0 Object_keys_def)
  have 3: "distinct (map fst (fst (listModels s)))"
    by (simp add: 0 MODEL_TO_PROVIDER_distinct)
  have 4: "\<forall>m p. (m, p) \<in> set (fst (listModels s)) \<longleftrightarrow> map_of MODEL_TO_PROVIDER m = Some p"
    by (simp add: 0 map_of_eq_Some_iff [OF MODEL_TO_PROVIDER_distinct])
  show ?thesis using 1 2 3 4 by blast
qed

section \<open>Properties of the orchestrator\<close>

subsection \<open>Sequencing\<close>

lemma bind_Return [simp]: "bind (es, Return x) f = (es @ fst (f x), snd (f x))"
  by (simp add: bind_def split: prod.splits)
lemma bind_Throw [simp]: "bind (es, Throw e) f = (es, Throw e)"
  by (simp add: bind_def)
lemma bind_Exit [simp]: "bind (es, Exit c) f = (es, Exit c)"
  by (simp add: bind_def)
lemma bind_return [simp]: "bind (return x) f = f x"
  by (simp add: return_def)
lemma bind_emit [simp]: "bind (emit ev) f = (ev # fst (f ()), snd (f ()))"
  by (simp add: emit_def)
lemma bind_call_Inr [simp]: "bind (call ev (Inr x)) f = (ev # fst (f x), snd (f x))"
  by (simp add: call_def)
lemma bind_call_Inl [simp]: "bind (call ev (Inl e)) f = ([ev], Throw e)"
  by (simp add: call_def)

lemma fst_bind: "fst (bind m f) = fst m @ (case snd m of Return x \<Rightarrow> fst (f x) | _ \<Rightarrow> [])"
  by (cases m; cases "snd m") (auto simp: bind_def split: prod.splits)

lemma snd_bind: "snd (bind m f) = (case snd m of Return x \<Rightarrow> snd (f x) | Throw e \<Rightarrow> Throw e | Exit c \<Rightarrow> Exit c)"
  by (cases m; cases "snd m") (auto simp: bind_def split: prod.splits)

lemma generate_calls_append [simp]:
  "generate_calls (es @ es') = generate_calls es @ generate_calls es'"
  by (induction es rule: generate_calls.induct) simp_all

subsection \<open>Post-processing and the loop\<close>

lemma when_call_events: "x \<in> set (fst (when_call c ev r)) \<Longrightarrow> x = ev"
  by (cases r) (simp_all add: when_call_def return_def split: if_splits)

lemma when_call_outcome: "snd (when_call c ev r) \<noteq> Exit n"
  by (cases r) (simp_all add: when_call_def return_def)

lemma postprocess_events:
  assumes "ev \<in> set (fst (postprocess w options i result))"
  shows "variation_of ev = Some i \<and> (\<forall>j r. ev \<noteq> CallGenerate j r)"
  using assms unfolding postprocess_def Let_def
  by (auto simp: fst_bind split: outcome.splits dest!: when_call_events)

lemma postprocess_outcome: "snd (postprocess w options i result) \<noteq> Exit n"
  unfolding postprocess_def Let_def
  by (auto simp: snd_bind when_call_outcome split: outcome.splits)




lemma loop_done:
  "\<not> i \<le> variationCount options \<Longrightarrow> variation_loop w options provider i gp = ([], Return gp)"
  by (simp add: variation_loop.simps [of w options provider i gp] return_def)

lemma loop_throw:
  "i \<le> variationCount options \<Longrightarrow>
   provider_generate w provider i (options\<lparr>output_opt := Some (outputPath_for options i)\<rparr>) = Inl e \<Longrightarrow>
   variation_loop w options provider i gp =
     ([CallGenerate i (options\<lparr>output_opt := Some (outputPath_for options i)\<rparr>)], Throw e)"
  by (simp add: variation_loop.simps [of w options provider i gp])

lemma loop_failure:
  "i \<le> variationCount options \<Longrightarrow>
   provider_generate w provider i (options\<lparr>output_opt := Some (outputPath_for options i)\<rparr>) = Inr result \<Longrightarrow>
   \<not> success result \<Longrightarrow>
   variation_loop w options provider i gp =
     ([CallGenerate i (options\<lparr>output_opt := Some (outputPath_for options i)\<rparr>),
       SpinnerFail (''Generation failed: '' @ String_js (of_opt (error result)))], Exit 1)"
  by (simp add: variation_loop.simps [of w options provider i gp] process_exit_def)

lemma loop_success:
  "i \<le> variationCount options \<Longrightarrow>
   provider_generate w provider i (options\<lparr>output_opt := Some (outputPath_for options i)\<rparr>) = Inr result \<Longrightarrow>
   success result \<Longrightarrow>
   variation_loop w options provider i gp =
     (case postprocess w options i result of
        (es, Return u) \<Rightarrow>
          (CallGenerate i (options\<lparr>output_opt := Some (outputPath_for options i)\<rparr>) # es @
             fst (variation_loop w options provider (Suc i) (gp @ [of_opt (outputPath result)])),
           snd (variation_loop w options provider (Suc i) (gp @ [of_opt (outputPath result)])))
      | (es, Throw e) \<Rightarrow>
          (CallGenerate i (options\<lparr>output_opt := Some (outputPath_for options i)\<rparr>) # es, Throw e)
      | (es, Exit c) \<Rightarrow>
          (CallGenerate i (options\<lparr>output_opt := Some (outputPath_for options i)\<rparr>) # es, Exit c))"
proof -
  assume a: "i \<le> variationCount options"
    "provider_generate w provider i (options\<lparr>output_opt := Some (outputPath_for options i)\<rparr>) = Inr result"
    "success result"
  obtain es out where pp: "postprocess w options i result = (es, out)"
    by (cases "postprocess w options i result")
  show ?thesis
    by (subst variation_loop.simps) (cases out; simp add: a pp)
qed

lemma loop_generate_events:
  "CallGenerate j r \<in> set (fst (variation_loop w options provider i gp)) \<Longrightarrow>
   i \<le> j \<and> r = options\<lparr>output_opt := Some (outputPath_for options j)\<rparr>"
proof (induction w options provider i gp rule: variation_loop.induct)
  case (1 w options provider i gp)
  let ?req = "options\<lparr>output_opt := Some (outputPath_for options i)\<rparr>"
  show ?case
  proof (cases "i \<le> variationCount options")
    case False
    with "1.prems" show ?thesis by (simp add: loop_done)
  next
    case True
    show ?thesis
    proof (cases "provider_generate w provider i ?req")
      case (Inl e)
      with True "1.prems" show ?thesis by (simp add: loop_throw)
    next
      case (Inr res)
      show ?thesis
      proof (cases "success res")
        case False
        with True Inr "1.prems" show ?thesis by (simp add: loop_failure)
      next
        case s: True
        obtain es out where pp: "postprocess w options i res = (es, out)"
          by (cases "postprocess w options i res")
        have es: "CallGenerate j r \<notin> set es"
          using postprocess_events [of "CallGenerate j r" w options i res] pp by auto
        from "1.prems" es consider "j = i \<and> r = ?req"
          | u where "out = Return u"
            "CallGenerate j r \<in> set (fst (variation_loop w options provider (Suc i) (gp @ [of_opt (outputPath res)])))"
          by (cases out) (auto simp: loop_success [OF True Inr s] pp)
        then show ?thesis
        proof cases
          case 1
          then show ?thesis by simp
        next
          case 2
          with "1.IH" [OF True _ 2(2)] s show ?thesis by simp
        qed
      qed
    qed
  qed
qed

lemma loop_failure_fatal:
  assumes "CallGenerate k request \<in> set (fst (variation_loop w options provider i gp))"
    and "provider_generate w provider k request = Inr result" and "\<not> success result"
  shows "snd (variation_loop w options provider i gp) = Exit 1 \<and>
    (\<exists>pre. fst (variation_loop w options provider i gp) =
        pre @ [CallGenerate k request,
               SpinnerFail (''Generation failed: '' @ String_js (of_opt (error result)))] \<and>
      (\<forall>ev \<in> set pre. \<forall>j. variation_of ev = Some j \<longrightarrow> j < k))"
  using assms
proof (induction w options provider i gp rule: variation_loop.induct)
  case (1 w options provider i gp)
  let ?req = "options\<lparr>output_opt := Some (outputPath_for options i)\<rparr>"
  let ?fail = "SpinnerFail (''Generation failed: '' @ String_js (of_opt (error result)))"
  note mem = "1.prems"(1)
  from loop_generate_events [OF mem]
  have k: "i \<le> k" and request: "request = options\<lparr>output_opt := Some (outputPath_for options k)\<rparr>"
    by simp_all
  show ?case
  proof (cases "i \<le> variationCount options")
    case False
    with mem show ?thesis by (simp add: loop_done)
  next
    case True
    show ?thesis
    proof (cases "k = i")
      case here: True
      with request "1.prems"(2) have "provider_generate w provider i ?req = Inr result" by simp
      from loop_failure [OF True this "1.prems"(3)] here request show ?thesis by simp
    next
      case later: False
      with k have lt: "i < k" by simp
      show ?thesis
      proof (cases "provider_generate w provider i ?req")
        case (Inl e)
        with True mem later show ?thesis by (simp add: loop_throw)
      next
        case (Inr res)
        show ?thesis
        proof (cases "success res")
          case False
          with True Inr mem later show ?thesis by (simp add: loop_failure)
        next
          case s: True
          obtain es out where pp: "postprocess w options i res = (es, out)"
            by (cases "postprocess w options i res")
          have es: "\<forall>ev \<in> set es. variation_of ev = Some i \<and> (\<forall>j r. ev \<noteq> CallGenerate j r)"
            using postprocess_events [of _ w options i res] pp by auto
          let ?rest = "variation_loop w options provider (Suc i) (gp @ [of_opt (outputPath res)])"
          from mem es later obtain u where out: "out = Return u"
            and mem': "CallGenerate k request \<in> set (fst ?rest)"
            by (cases out) (auto simp: loop_success [OF True Inr s] pp)
          from "1.IH" [OF True _ mem' "1.prems"(2,3)] s obtain pre where
            rest: "snd ?rest = Exit 1" "fst ?rest = pre @ [CallGenerate k request, ?fail]"
            and pre: "\<forall>ev \<in> set pre. \<forall>j. variation_of ev = Some j \<longrightarrow> j < k"
            by auto
          have whole: "variation_loop w options provider i gp =
              ((CallGenerate i ?req # es @ pre) @ [CallGenerate k request, ?fail], Exit 1)"
            by (simp add: loop_success [OF True Inr s] pp out rest)
          have "\<forall>ev \<in> set (CallGenerate i ?req # es @ pre). \<forall>j. variation_of ev = Some j \<longrightarrow> j < k"
            using es pre lt by auto
          with whole show ?thesis by (metis fst_conv snd_conv)
        qed
      qed
    qed
  qed
qed

subsection \<open>The extension pattern\<close>

lemma ext_alternative_no_dot:
  assumes "toLowerCase cs \<in> set ext_alternatives"
  shows "CHR ''.'' \<notin> set cs"
proof -
  from assms have "CHR ''.'' \<notin> set (toLowerCase cs)"
    by (auto simp: ext_alternatives_def)
  then show ?thesis by (simp add: toLowerCase_dot)
qed

lemma match_ext_append:
  assumes "toLowerCase cs \<in> set ext_alternatives"
  shows "match_ext (pre @ CHR ''.'' # cs) = Some (pre, CHR ''.'' # cs)"
proof (induction pre)
  case Nil
  from assms show ?case by simp
next
  case (Cons c pre)
  have "CHR ''.'' \<in> set (pre @ CHR ''.'' # cs)" by simp
  then have "toLowerCase (pre @ CHR ''.'' # cs) \<notin> set ext_alternatives"
    using ext_alternative_no_dot by blast
  with Cons show ?case by simp
qed


lemma image_ext_split:
  assumes "toLowerCase e \<in> {''.png'', ''.jpg'', ''.jpeg'', ''.webp''}"
  shows "\<exists>cs. e = CHR ''.'' # cs \<and> toLowerCase cs \<in> set ext_alternatives"
proof -
  from assms obtain c cs where e: "e = c # cs"
    by (cases e) (auto simp: toLowerCase_def)
  with assms have "toLowerChar c = CHR ''.''" "toLowerCase cs \<in> set ext_alternatives"
    by (auto simp: toLowerCase_def ext_alternatives_def)
  with e show ?thesis by (simp add: toLowerChar_dot)
qed

lemma match_ext_image_ext:
  assumes "s = stem @ e" "toLowerCase e \<in> {''.png'', ''.jpg'', ''.jpeg'', ''.webp''}"
  shows "match_ext s = Some (stem, e)"
  using image_ext_split [OF assms(2)] assms(1) match_ext_append by auto

lemma match_ext_None:
  assumes "match_ext s = None" "s = stem @ e"
  shows "toLowerCase e \<notin> {''.png'', ''.jpg'', ''.jpeg'', ''.webp''}"
  using assms match_ext_image_ext by fastforce



lemma dec_examples: "dec 1 = ''1''" "dec 7 = ''7''" "dec 10 = ''10''" "dec 256 = ''256''"
  by code_simp+



lemma opts3_baseOutput: "baseOutput opts3 = ''/tmp/out'' @ ''.png''"
  by (simp add: baseOutput_def opts3_def)


lemma action_with_provider:
  assumes "fst (getProviderForModel g (model opts) s) = Inr provider"
  shows "\<exists>start rest.
     fst (action g w s opts) =
       start # fst (variation_loop w (opts\<lparr>useApi := None\<rparr>) provider 1 []) @ rest \<and>
     variation_of start = None \<and>
     (\<forall>ev \<in> set rest. variation_of ev = None) \<and>
     (\<forall>c. snd (variation_loop w (opts\<lparr>useApi := None\<rparr>) provider 1 []) = Exit c \<longrightarrow>
          rest = [] \<and> snd (action g w s opts) = Exit c)"
proof -
  obtain tr out where loop: "variation_loop w (opts\<lparr>useApi := None\<rparr>) provider (Suc 0) [] = (tr, out)"
    by (cases "variation_loop w (opts\<lparr>useApi := None\<rparr>) provider (Suc 0) []")
  show ?thesis
    unfolding One_nat_def
    by (cases out)
       (auto simp: action_def Let_def assms loop try_catch_def emit_def return_def process_exit_def)
qed

text \<open>
  C8. In every run of the action (with one variation or several): when \<open>generate\<close> is
  called for variation \<open>k\<close> and returns a failure result, the process exits with status
  1, and the trace ends with that call followed by the report
  \<open>Generation failed: <error of variation k>\<close>. Every event before the call belongs to a
  variation below \<open>k\<close> (or to none): no post-processing step runs for variation \<open>k\<close>
  and \<open>generate\<close> is not called for a later variation.
\<close>

theorem generation_failure_is_fatal:
  assumes "fst (getProviderForModel g (model opts) s) = Inr provider"
    and "CallGenerate k request \<in> set (fst (action g w s opts))"
    and "provider_generate w provider k request = Inr result" and "\<not> success result"
  shows "snd (action g w s opts) = Exit 1 \<and>
    (\<exists>pre. fst (action g w s opts) =
        pre @ [CallGenerate k request,
               SpinnerFail (''Generation failed: '' @ String_js (of_opt (error result)))] \<and>
      (\<forall>ev \<in> set pre. \<forall>j. variation_of ev = Some j \<longrightarrow> j < k))"
proof -
  let ?loop = "variation_loop w (opts\<lparr>useApi := None\<rparr>) provider 1 []"
  let ?fail = "SpinnerFail (''Generation failed: '' @ String_js (of_opt (error result)))"
  from action_with_provider [OF assms(1), of w] obtain start rest where
    tr: "fst (action g w s opts) = start # fst ?loop @ rest"
    and start: "variation_of start = None"
    and rest: "\<forall>ev \<in> set rest. variation_of ev = None"
    and exit: "\<forall>c. snd ?loop = Exit c \<longrightarrow> rest = [] \<and> snd (action g w s opts) = Exit c"
    by blast
  from assms(2) tr start rest have "CallGenerate k request \<in> set (fst ?loop)"
    by auto
  from loop_failure_fatal [OF this assms(3,4)] obtain pre where
    out: "snd ?loop = Exit 1" and loop: "fst ?loop = pre @ [CallGenerate k request, ?fail]"
    and pre: "\<forall>ev \<in> set pre. \<forall>j. variation_of ev = Some j \<longrightarrow> j < k"
    by blast
  from exit out have "rest = []" "snd (action g w s opts) = Exit 1" by simp_all
  moreover from this tr loop have "fst (action g w s opts) = (start # pre) @ [CallGenerate k request, ?fail]"
    by simp
  moreover from start pre have "\<forall>ev \<in> set (start # pre). \<forall>j. variation_of ev = Some j \<longrightarrow> j < k"
    by simp
  ultimately show ?thesis by blast
qed

lemma opts3_useApi: "opts3\<lparr>useApi := None\<rparr> = opts3"
  by (simp add: opts3_def)

lemma opts3_count: "variationCount opts3 = 3"
  by (simp add: variationCount_def opts3_def)

lemma opts3_outputPath: "outputPath_for opts3 i = ''/tmp/out-v'' @ dec i @ ''.png''"
proof -
  have "match_ext (baseOutput opts3) = Some (''/tmp/out'', ''.png'')"
    using match_ext_image_ext [of "baseOutput opts3" "''/tmp/out''" "''.png''"]
    by (simp add: opts3_baseOutput toLowerCase_def toLowerChar_def)
  then show ?thesis
    by (simp add: outputPath_for_def isMultiple_def opts3_count basePath_def ext_def)
qed

lemma opts3_postprocess: "postprocess w opts3 i result = ([], Return ())"
  by (simp add: postprocess_def when_call_def opts3_def return_def)

lemma world_fail2_loop:
  "variation_loop world_fail2 opts3 provider 1 [] =
     ([CallGenerate 1 (request3 1), CallGenerate 2 (request3 2),
       SpinnerFail ''Generation failed: API quota exceeded. Please try again later.''], Exit 1)"
proof -
  have g1: "provider_generate world_fail2 provider 1 (opts3\<lparr>output_opt := Some (outputPath_for opts3 1)\<rparr>) =
      Inr \<lparr>success = True, outputPath = Some (outputPath_for opts3 1), error = None, metadata = None\<rparr>"
    by (simp add: world_fail2_def)
  have g2: "provider_generate world_fail2 provider 2 (opts3\<lparr>output_opt := Some (outputPath_for opts3 2)\<rparr>) =
      Inr (failure ''API quota exceeded. Please try again later.'')"
    by (simp add: world_fail2_def)
  have l2: "variation_loop world_fail2 opts3 provider 2 gp =
     ([CallGenerate 2 (request3 2),
       SpinnerFail ''Generation failed: API quota exceeded. Please try again later.''], Exit 1)" for gp
    using loop_failure [OF _ g2, of gp]
    by (simp add: opts3_count failure_def request3_def opts3_outputPath)
  have "variation_loop world_fail2 opts3 provider 1 [] =
     (CallGenerate 1 (request3 1) # fst (variation_loop world_fail2 opts3 provider 2 [Str (outputPath_for opts3 1)]),
      snd (variation_loop world_fail2 opts3 provider 2 [Str (outputPath_for opts3 1)]))"
    using loop_success [OF _ g1, of "[]"]
    by (simp add: opts3_count opts3_postprocess request3_def opts3_outputPath numeral_2_eq_2)
  then show ?thesis by (simp add: l2)
qed

lemma world_fail2_action:
  "action GenAICli world_fail2 (start tok_env) opts3 =
     ([SpinnerStart ''Generating 3 variations with flux...'',
       CallGenerate 1 (request3 1), CallGenerate 2 (request3 2),
       SpinnerFail ''Generation failed: API quota exceeded. Please try again later.''], Exit 1)"
proof -
  have m: "model opts3 = ''flux''" by (simp add: opts3_def)
  have d: "dec 3 = ''3''" by code_simp
  show ?thesis
    by (simp add: action_def opts3_useApi m flux_first_call world_fail2_loop [unfolded One_nat_def]
          isMultiple_def opts3_count try_catch_def d)
qed

theorem generation_failure_is_fatal_witness:
  "CallGenerate 2 (request3 2) \<in> set (fst (action GenAICli world_fail2 (start tok_env) opts3)) \<and>
   snd (action GenAICli world_fail2 (start tok_env) opts3) = Exit 1 \<and>
   (\<exists>pre. fst (action GenAICli world_fail2 (start tok_env) opts3) =
      pre @ [CallGenerate 2 (request3 2),
             SpinnerFail ''Generation failed: API quota exceeded. Please try again later.''] \<and>
      CallGenerate 3 (request3 3) \<notin> set pre)"
proof -
  have 1: "fst (getProviderForModel GenAICli (model opts3) (start tok_env)) = Inr replicate0"
    by (simp add: opts3_def flux_first_call)
  have 2: "CallGenerate 2 (request3 2) \<in> set (fst (action GenAICli world_fail2 (start tok_env) opts3))"
    by (simp add: world_fail2_action)
  have 3: "provider_generate world_fail2 replicate0 2 (request3 2) =
      Inr (failure ''API quota exceeded. Please try again later.'')"
    by (simp add: world_fail2_def)
  have 4: "\<not> success (failure ''API quota exceeded. Please try again later.'')"
    by (simp add: failure_def)
  from generation_failure_is_fatal [OF 1 2 3 4] 2 show ?thesis
    by (fastforce simp: failure_def)
qed

section \<open>Properties of the provider adapters\<close>

subsection \<open>An adapter never ends the process\<close>

lemma no_exit_return [simp]: "no_exit (return x)"
  by (simp add: no_exit_def return_def)

lemma no_exit_throw [simp]: "no_exit (throw e)"
  by (simp add: no_exit_def throw_def)

lemma no_exit_call [simp]: "no_exit (call ev r)"
  by (cases r) (simp_all add: no_exit_def call_def)

lemma no_exit_bind: "no_exit m \<Longrightarrow> (\<And>x. no_exit (f x)) \<Longrightarrow> no_exit (bind m f)"
  by (auto simp: no_exit_def snd_bind split: outcome.splits)

lemma fst_call [simp]: "fst (call ev r) = [ev]"
  by (simp add: call_def)

lemma fst_return [simp]: "fst (return x) = []"
  by (simp add: return_def)

lemma snd_return [simp]: "snd (return x) = Return x"
  by (simp add: return_def)

lemma fst_throw [simp]: "fst (throw e) = []"
  by (simp add: throw_def)

lemma snd_throw [simp]: "snd (throw e) = Throw e"
  by (simp add: throw_def)

lemma fst_try_catch_return [simp]: "fst (try_catch m (\<lambda>e. return (c e))) = fst m"
  by (cases m; cases "snd m") (auto simp: try_catch_def return_def)

lemma snd_try_catch_return:
  "snd (try_catch m (\<lambda>e. return (c e))) =
     (case snd m of Return x \<Rightarrow> Return x | Throw e \<Rightarrow> Return (c e) | Exit n \<Rightarrow> Exit n)"
  by (cases m; cases "snd m") (auto simp: try_catch_def return_def)

lemma try_catch_returns:
  "no_exit m \<Longrightarrow> \<exists>r. snd (try_catch m (\<lambda>e. return (c e))) = Return r"
  by (cases "snd m") (auto simp: snd_try_catch_return no_exit_def)

lemma no_exit_downloadImage [simp]: "no_exit (downloadImage w u p)"
  unfolding downloadImage_def by (auto intro!: no_exit_bind)

lemma no_exit_saveImage [simp]: "no_exit (saveImage w u p)"
  by (simp add: saveImage_def)

lemma no_exit_saveBase64Image [simp]: "no_exit (saveBase64Image w d p)"
  unfolding saveBase64Image_def by (intro no_exit_bind) simp_all

lemma no_exit_read_reference_parts [simp]: "no_exit (read_reference_parts w ps)"
  by (induction ps) (auto intro!: no_exit_bind)

lemma no_exit_replicate_build_input [simp]: "no_exit (replicate_build_input w options)"
  unfolding replicate_build_input_def by (auto intro!: no_exit_bind)

lemma no_exit_replicate_save [simp]: "no_exit (replicate_save w options out)"
  unfolding replicate_save_def by (auto intro!: no_exit_bind split: option.splits)

lemma no_exit_ReplicateProvider_try: "no_exit (ReplicateProvider_try w modelId options)"
  unfolding ReplicateProvider_try_def
  by (intro no_exit_bind) simp_all

lemma no_exit_openai_save [simp]: "no_exit (openai_save w response p)"
  unfolding openai_save_def
  by (auto intro!: no_exit_bind split: option.splits list.splits)

lemma no_exit_OpenAIProvider_try: "no_exit (OpenAIProvider_try w options)"
  unfolding OpenAIProvider_try_def Let_def
  by (intro no_exit_bind) (auto intro!: no_exit_bind split: option.splits)

lemma no_exit_generative_ai_save [simp]: "no_exit (generative_ai_save w options response)"
  unfolding generative_ai_save_def Let_def
  by (auto intro!: no_exit_bind split: option.splits list.splits)

lemma no_exit_GoogleProvider_GenerativeAI_try: "no_exit (GoogleProvider_GenerativeAI_try w options)"
  unfolding GoogleProvider_GenerativeAI_try_def Let_def
  by (intro no_exit_bind) simp_all

lemma no_exit_genai_save [simp]: "no_exit (genai_save w options response)"
  unfolding genai_save_def Let_def
  by (auto intro!: no_exit_bind split: option.splits list.splits)

lemma no_exit_GoogleProvider_GenAI_try: "no_exit (GoogleProvider_GenAI_try w options)"
  unfolding GoogleProvider_GenAI_try_def
  by (intro no_exit_bind) simp_all

lemma no_exit_generateViaCli_try: "no_exit (generateViaCli_try w options)"
  unfolding generateViaCli_try_def
  by (intro no_exit_bind) (auto split: prod.splits)

subsection \<open>What the \<open>catch\<close> blocks report\<close>

lemma ReplicateProvider_generate_outcome:
  "snd (ReplicateProvider_generate w this options) =
     (if \<not> truthy (obj_get FLUX_MODELS (model options))
      then Return (failure (''Unknown Replicate model: '' @ model options))
      else case snd (ReplicateProvider_try w (obj_get FLUX_MODELS (model options)) options) of
             Return r \<Rightarrow> Return r
           | Throw x \<Rightarrow> Return (failure (message_or x ''Unknown error occurred''))
           | Exit n \<Rightarrow> Exit n)"
  by (simp add: ReplicateProvider_generate_def Let_def snd_try_catch_return)

text \<open>
  C4, as amended. For every world, instance and request, \<open>generate\<close> of each of the five
  adapters returns a result: it neither throws nor ends the process. When the \<open>try\<close>
  block throws \<open>x\<close>, the result is a failure whose error string is
  \<^item> Replicate: the message of \<open>x\<close>, or \<open>Unknown error occurred\<close> when \<open>x\<close> is no \<open>Error\<close>;
  \<^item> OpenAI: \<open>OpenAI API Error (<status>): <message>\<close> when \<open>x\<close> is an \<open>APIError\<close>, else as
    for Replicate;
  \<^item> Google: a fixed safety text when the message contains \<open>SAFETY\<close> (\<open>@google/genai\<close>
    adapters: or \<open>blocked\<close>), a fixed quota text when it contains \<open>quota\<close> or
    \<open>RESOURCE_EXHAUSTED\<close>, else as for Replicate;
  \<^item> Google through the CLI: a fixed text when the message contains \<open>ENOENT\<close>, else the
    message, or \<open>Unknown error\<close>.
\<close>

theorem generate_never_throws:
  "(\<exists>r. snd (ReplicateProvider_generate w this options) = Return r) \<and>
   (\<exists>r. snd (OpenAIProvider_generate w this options) = Return r) \<and>
   (\<exists>r. snd (GoogleProvider_GenerativeAI_generate w this options) = Return r) \<and>
   (\<exists>r. snd (GoogleProvider_GenAI_generate w this options) = Return r) \<and>
   (\<exists>r. snd (GoogleProvider_GenAICli_generate w this options) = Return r) \<and>
   (\<forall>x. truthy (obj_get FLUX_MODELS (model options)) \<and>
        snd (ReplicateProvider_try w (obj_get FLUX_MODELS (model options)) options) = Throw x \<longrightarrow>
        snd (ReplicateProvider_generate w this options) =
          Return (failure (message_or x ''Unknown error occurred''))) \<and>
   (\<forall>x. snd (OpenAIProvider_try w options) = Throw x \<longrightarrow>
        snd (OpenAIProvider_generate w this options) =
          Return (case x of
                    APIError status m \<Rightarrow> failure (''OpenAI API Error ('' @ status_text status @ ''): '' @ m)
                  | _ \<Rightarrow> failure (message_or x ''Unknown error occurred''))) \<and>
   (\<forall>x. snd (GoogleProvider_GenerativeAI_try w options) = Throw x \<longrightarrow>
        snd (GoogleProvider_GenerativeAI_generate w this options) =
          Return (if js_includes (message_or x ''Unknown error occurred'') ''SAFETY''
                  then failure ''Content blocked by safety filters. Try rephrasing your prompt.''
                  else if js_includes (message_or x ''Unknown error occurred'') ''quota'' \<or>
                          js_includes (message_or x ''Unknown error occurred'') ''RESOURCE_EXHAUSTED''
                  then failure ''API quota exceeded. Please try again later.''
                  else failure (message_or x ''Unknown error occurred''))) \<and>
   (\<forall>x. snd (GoogleProvider_GenAI_try w options) = Throw x \<longrightarrow>
        snd (GoogleProvider_GenAI_generate w this options) =
          Return (if js_includes (message_or x ''Unknown error occurred'') ''SAFETY'' \<or>
                     js_includes (message_or x ''Unknown error occurred'') ''blocked''
                  then failure ''Content blocked by safety filters. Try rephrasing your prompt.''
                  else if js_includes (message_or x ''Unknown error occurred'') ''quota'' \<or>
                          js_includes (message_or x ''Unknown error occurred'') ''RESOURCE_EXHAUSTED''
                  then failure ''API quota exceeded. Please try again later.''
                  else failure (message_or x ''Unknown error occurred''))) \<and>
   (\<forall>x. \<not> (isNanoBanana (model options) \<and> \<not> flag (useApi options)) \<and> client this \<noteq> None \<and>
        snd (GoogleProvider_GenAI_try w options) = Throw x \<longrightarrow>
        snd (GoogleProvider_GenAICli_generate w this options) =
          Return (if js_includes (message_or x ''Unknown error occurred'') ''SAFETY'' \<or>
                     js_includes (message_or x ''Unknown error occurred'') ''blocked''
                  then failure ''Content blocked by safety filters. Try rephrasing your prompt.''
                  else if js_includes (message_or x ''Unknown error occurred'') ''quota'' \<or>
                          js_includes (message_or x ''Unknown error occurred'') ''RESOURCE_EXHAUSTED''
                  then failure ''API quota exceeded. Please try again later.''
                  else failure (message_or x ''Unknown error occurred''))) \<and>
   (\<forall>x. isNanoBanana (model options) \<and> \<not> flag (useApi options) \<and>
        snd (generateViaCli_try w options) = Throw x \<longrightarrow>
        snd (GoogleProvider_GenAICli_generate w this options) =
          Return (if js_includes (message_or x ''Unknown error'') ''ENOENT''
                  then failure (''Gemini CLI not found at '' @ GEMINI_CLI @ ''. Install it or use --api flag.'')
                  else failure (message_or x ''Unknown error'')))"
proof -
  have r: "\<exists>r. snd (ReplicateProvider_generate w this options) = Return r"
    using no_exit_ReplicateProvider_try [of w "obj_get FLUX_MODELS (model options)" options]
    by (auto simp: ReplicateProvider_generate_outcome no_exit_def split: outcome.splits)
  have o: "\<exists>r. snd (OpenAIProvider_generate w this options) = Return r"
    unfolding OpenAIProvider_generate_def
    by (rule try_catch_returns) (rule no_exit_OpenAIProvider_try)
  have g1: "\<exists>r. snd (GoogleProvider_GenerativeAI_generate w this options) = Return r"
    unfolding GoogleProvider_GenerativeAI_generate_def
    by (rule try_catch_returns) (rule no_exit_GoogleProvider_GenerativeAI_try)
  have g2: "\<exists>r. snd (GoogleProvider_GenAI_generate w this options) = Return r"
    unfolding GoogleProvider_GenAI_generate_def
    by (rule try_catch_returns) (rule no_exit_GoogleProvider_GenAI_try)
  have cli: "\<exists>r. snd (generateViaCli w options) = Return r"
    unfolding generateViaCli_def
    by (rule try_catch_returns) (rule no_exit_generateViaCli_try)
  have api: "\<exists>r. snd (try_catch (GoogleProvider_GenAI_try w options)
                 (\<lambda>error. return (GoogleProvider_GenAI_catch error))) = Return r"
    by (rule try_catch_returns) (rule no_exit_GoogleProvider_GenAI_try)
  have g3: "\<exists>r. snd (GoogleProvider_GenAICli_generate w this options) = Return r"
    using cli api by (simp add: GoogleProvider_GenAICli_generate_def)
  have r': "snd (ReplicateProvider_generate w this options) =
          Return (failure (message_or x ''Unknown error occurred''))"
    if "truthy (obj_get FLUX_MODELS (model options))"
       "snd (ReplicateProvider_try w (obj_get FLUX_MODELS (model options)) options) = Throw x" for x
    using that by (simp add: ReplicateProvider_generate_outcome)
  have o': "snd (OpenAIProvider_generate w this options) =
          Return (case x of
                    APIError status m \<Rightarrow> failure (''OpenAI API Error ('' @ status_text status @ ''): '' @ m)
                  | _ \<Rightarrow> failure (message_or x ''Unknown error occurred''))"
    if "snd (OpenAIProvider_try w options) = Throw x" for x
    using that by (cases x) (simp_all add: OpenAIProvider_generate_def snd_try_catch_return)
  have g1': "snd (GoogleProvider_GenerativeAI_generate w this options) =
          Return (if js_includes (message_or x ''Unknown error occurred'') ''SAFETY''
                  then failure ''Content blocked by safety filters. Try rephrasing your prompt.''
                  else if js_includes (message_or x ''Unknown error occurred'') ''quota'' \<or>
                          js_includes (message_or x ''Unknown error occurred'') ''RESOURCE_EXHAUSTED''
                  then failure ''API quota exceeded. Please try again later.''
                  else failure (message_or x ''Unknown error occurred''))"
    if "snd (GoogleProvider_GenerativeAI_try w options) = Throw x" for x
    using that
    by (simp add: GoogleProvider_GenerativeAI_generate_def snd_try_catch_return
          GoogleProvider_GenerativeAI_catch_def Let_def)
  have g2': "snd (GoogleProvider_GenAI_generate w this options) =
          Return (if js_includes (message_or x ''Unknown error occurred'') ''SAFETY'' \<or>
                     js_includes (message_or x ''Unknown error occurred'') ''blocked''
                  then failure ''Content blocked by safety filters. Try rephrasing your prompt.''
                  else if js_includes (message_or x ''Unknown error occurred'') ''quota'' \<or>
                          js_includes (message_or x ''Unknown error occurred'') ''RESOURCE_EXHAUSTED''
                  then failure ''API quota exceeded. Please try again later.''
                  else failure (message_or x ''Unknown error occurred''))"
    if "snd (GoogleProvider_GenAI_try w options) = Throw x" for x
    using that
    by (simp add: GoogleProvider_GenAI_generate_def snd_try_catch_return
          GoogleProvider_GenAI_catch_def Let_def)
  have g3': "snd (GoogleProvider_GenAICli_generate w this options) =
          Return (if js_includes (message_or x ''Unknown error'') ''ENOENT''
                  then failure (''Gemini CLI not found at '' @ GEMINI_CLI @ ''. Install it or use --api flag.'')
                  else failure (message_or x ''Unknown error''))"
    if "isNanoBanana (model options)" "\<not> flag (useApi options)"
       "snd (generateViaCli_try w options) = Throw x" for x
    using that
    by (simp add: GoogleProvider_GenAICli_generate_def generateViaCli_def snd_try_catch_return
          generateViaCli_catch_def Let_def)
  have g4': "snd (GoogleProvider_GenAICli_generate w this options) =
          Return (if js_includes (message_or x ''Unknown error occurred'') ''SAFETY'' \<or>
                     js_includes (message_or x ''Unknown error occurred'') ''blocked''
                  then failure ''Content blocked by safety filters. Try rephrasing your prompt.''
                  else if js_includes (message_or x ''Unknown error occurred'') ''quota'' \<or>
                          js_includes (message_or x ''Unknown error occurred'') ''RESOURCE_EXHAUSTED''
                  then failure ''API quota exceeded. Please try again later.''
                  else failure (message_or x ''Unknown error occurred''))"
    if "\<not> (isNanoBanana (model options) \<and> \<not> flag (useApi options))" "client this \<noteq> None"
       "snd (GoogleProvider_GenAI_try w options) = Throw x" for x
  proof -
    from that(1,2) have "GoogleProvider_GenAICli_generate w this options =
        try_catch (GoogleProvider_GenAI_try w options) (\<lambda>error. return (GoogleProvider_GenAI_catch error))"
      by (auto simp add: GoogleProvider_GenAICli_generate_def)
    with that(3) show ?thesis
      by (simp add: snd_try_catch_return GoogleProvider_GenAI_catch_def Let_def)
  qed
  from r o g1 g2 g3 r' o' g1' g2' g4' g3' show ?thesis by blast
qed

subsection \<open>What the \<open>catch\<close> blocks report: examples\<close>

lemma FLUX_flux: "obj_get FLUX_MODELS ''flux'' = Str ''black-forest-labs/flux-1.1-pro''"
  by (simp add: obj_get_def FLUX_MODELS_def)


lemma offline_replicate_try:
  "ReplicateProvider_try world_offline (Str ''black-forest-labs/flux-1.1-pro'') opts_cube =
     ([ReplicateRun (Str ''black-forest-labs/flux-1.1-pro'') (replicate_base_input opts_cube)],
      Throw (Error ''fetch failed''))"
proof -
  have "referenceImages opts_cube = None" by (simp add: opts_cube_def)
  moreover have "replicate_run world_offline m i = Inl (Error ''fetch failed'')" for m i
    by (simp add: world_offline_def)
  ultimately show ?thesis
    by (simp add: ReplicateProvider_try_def replicate_build_input_def)
qed

text \<open>Replicate without network: the exception of \<open>client.run\<close> becomes the error string.\<close>

theorem generate_never_throws_witness:
  "snd (ReplicateProvider_try world_offline (obj_get FLUX_MODELS (model opts_cube)) opts_cube) =
     Throw (Error ''fetch failed'') \<and>
   snd (ReplicateProvider_generate world_offline replicate0 opts_cube) = Return (failure ''fetch failed'')"
proof -
  have m: "model opts_cube = ''flux''" by (simp add: opts_cube_def)
  have 1: "truthy (obj_get FLUX_MODELS (model opts_cube))" by (simp add: m FLUX_flux)
  have 2: "snd (ReplicateProvider_try world_offline (obj_get FLUX_MODELS (model opts_cube)) opts_cube) =
     Throw (Error ''fetch failed'')"
    by (simp add: m FLUX_flux offline_replicate_try)
  from generate_never_throws [of world_offline replicate0 opts_cube] 1 2
  have "snd (ReplicateProvider_generate world_offline replicate0 opts_cube) =
          Return (failure (message_or (Error ''fetch failed'') ''Unknown error occurred''))"
    by blast
  with 2 show ?thesis by simp
qed

lemma imagen_modelName:
  "js_or (obj_get generative_ai_modelMap (model opts_imagen)) (Str ''gemini-2.0-flash-exp'') =
     Str ''imagen-4.0-generate-preview-05-20''"
  by (simp add: opts_imagen_def opts_cube_def obj_get_def generative_ai_modelMap_def js_or_def)

lemma imagen_prompt: "with_negative_prompt opts_imagen = ''a red cube Avoid: blurry''"
  by (simp add: with_negative_prompt_def opts_imagen_def opts_cube_def)

lemma safety_try:
  "GoogleProvider_GenerativeAI_try world_safety opts_imagen =
     ([GenerativeAIGenerateContent (Str ''imagen-4.0-generate-preview-05-20'')
         [TextPart ''a red cube Avoid: blurry'']],
      Throw (Error ''Candidate was blocked due to SAFETY''))"
proof -
  have "referenceImages opts_imagen = None" by (simp add: opts_imagen_def opts_cube_def)
  moreover have "generative_ai_generateContent world_safety m ps =
      Inl (Error ''Candidate was blocked due to SAFETY'')" for m ps
    by (simp add: world_safety_def)
  ultimately show ?thesis
    by (simp add: GoogleProvider_GenerativeAI_try_def Let_def imagen_modelName imagen_prompt)
qed

text \<open>
  C4 as stated fails: the claim says that the error string of the failure is the
  message of the exception. The Google adapter of \<open>providers/google.ts\<close>, when the SDK
  throws an error whose message contains \<open>SAFETY\<close>, reports a fixed text of its own
  instead.
\<close>

theorem error_string_is_not_the_message:
  "snd (GoogleProvider_GenerativeAI_try world_safety opts_imagen) =
     Throw (Error ''Candidate was blocked due to SAFETY'') \<and>
   snd (GoogleProvider_GenerativeAI_generate world_safety google0 opts_imagen) =
     Return (failure ''Content blocked by safety filters. Try rephrasing your prompt.'') \<and>
   error (failure ''Content blocked by safety filters. Try rephrasing your prompt.'') \<noteq>
     Some ''Candidate was blocked due to SAFETY''"
proof -
  have "js_includes ''Candidate was blocked due to SAFETY'' ''SAFETY''" by code_simp
  then show ?thesis
    by (simp add: GoogleProvider_GenerativeAI_generate_def snd_try_catch_return safety_try
          GoogleProvider_GenerativeAI_catch_def failure_def)
qed

subsection \<open>The prompt that reaches the backend\<close>






lemma part_texts_append [simp]: "part_texts (ps @ qs) = part_texts ps @ part_texts qs"
  by (induction ps rule: part_texts.induct) simp_all













lemma cli_directives_not_empty: "cli_directives w options \<noteq> []"
  by (simp add: cli_directives_def)








subsection \<open>Credentials\<close>

lemma action_without_provider:
  assumes "fst (getProviderForModel g (model opts) s) = Inl x"
  shows "action g w s opts =
     ([SpinnerStart (if isMultiple (opts\<lparr>useApi := None\<rparr>)
                     then ''Generating '' @ dec (variationCount (opts\<lparr>useApi := None\<rparr>))
                            @ '' variations with '' @ model opts @ ''...''
                     else ''Generating image with '' @ model opts @ ''...''),
       SpinnerFail (''Error: '' @ message_or x ''Unknown error'')], Exit 1)"
  using assms
  by (simp add: action_def Let_def try_catch_def throw_def emit_def process_exit_def)

text \<open>
  C6, as amended. With its credential variable unset, the constructor of the Replicate
  adapter, of the OpenAI adapter and of the two Google adapters that only use an SDK
  throws the configuration error. The constructor of the CLI-capable Google adapter does
  not throw: with both Google variables unset it builds an instance without a client,
  and the missing key is reported by \<open>generate\<close>, as a failure result and before any
  backend call, when the request takes the API path (a model other than the two
  nano-banana ones, or \<open>useApi\<close> set). Whenever the registry fails to hand out a
  provider, the action exits with status 1 without having called \<open>generate\<close>.
\<close>

theorem credentials_checked:
  "(e ''REPLICATE_API_TOKEN'' = None \<longrightarrow>
      new_ReplicateProvider e r = Inl (Error ''REPLICATE_API_TOKEN environment variable is required'')) \<and>
   (e ''OPENAI_API_KEY'' = None \<longrightarrow>
      new_OpenAIProvider e r = Inl (Error ''OPENAI_API_KEY environment variable is required'')) \<and>
   (e ''GOOGLE_API_KEY'' = None \<and> e ''GEMINI_API_KEY'' = None \<longrightarrow>
      new_GoogleProvider GenerativeAI e r =
        Inl (Error ''GOOGLE_API_KEY or GEMINI_API_KEY environment variable is required'') \<and>
      new_GoogleProvider GenAI e r =
        Inl (Error ''GOOGLE_API_KEY or GEMINI_API_KEY environment variable is required'') \<and>
      new_GoogleProvider GenAICli e r =
        Inr \<lparr>ref = r, name = ''Google'', models = google_models, client = None\<rparr> \<and>
      (\<forall>w options. \<not> (isNanoBanana (model options) \<and> \<not> flag (useApi options)) \<longrightarrow>
         GoogleProvider_GenAICli_generate w
             \<lparr>ref = r, name = ''Google'', models = google_models, client = None\<rparr> options =
           ([], Return (failure (''GOOGLE_API_KEY or GEMINI_API_KEY environment variable is required. ''
                                 @ ''For nanobanana models, omit --api to use Gemini CLI instead.''))))) \<and>
   (\<forall>g w s opts x. fst (getProviderForModel g (model opts) s) = Inl x \<longrightarrow>
      generate_calls (fst (action g w s opts)) = [] \<and> snd (action g w s opts) = Exit 1)"
proof -
  have r: "new_ReplicateProvider e r = Inl (Error ''REPLICATE_API_TOKEN environment variable is required'')"
    if "e ''REPLICATE_API_TOKEN'' = None"
    using that by (simp add: new_ReplicateProvider_def env_get_def)
  have o: "new_OpenAIProvider e r = Inl (Error ''OPENAI_API_KEY environment variable is required'')"
    if "e ''OPENAI_API_KEY'' = None"
    using that by (simp add: new_OpenAIProvider_def env_get_def)
  have k: "google_apiKey e = Undefined" if "e ''GOOGLE_API_KEY'' = None" "e ''GEMINI_API_KEY'' = None"
    using that by (simp add: google_apiKey_def env_get_def js_or_def)
  have g1: "new_GoogleProvider GenerativeAI e r =
        Inl (Error ''GOOGLE_API_KEY or GEMINI_API_KEY environment variable is required'')"
    if "e ''GOOGLE_API_KEY'' = None" "e ''GEMINI_API_KEY'' = None"
    using k [OF that] by (simp add: new_GoogleProvider_GenerativeAI_def)
  have g2: "new_GoogleProvider GenAI e r =
        Inl (Error ''GOOGLE_API_KEY or GEMINI_API_KEY environment variable is required'')"
    if "e ''GOOGLE_API_KEY'' = None" "e ''GEMINI_API_KEY'' = None"
    using k [OF that] by (simp add: new_GoogleProvider_GenAI_def)
  have g3: "new_GoogleProvider GenAICli e r =
        Inr \<lparr>ref = r, name = ''Google'', models = google_models, client = None\<rparr>"
    if "e ''GOOGLE_API_KEY'' = None" "e ''GEMINI_API_KEY'' = None"
    using k [OF that] by (simp add: new_GoogleProvider_GenAICli_def)
  have g4: "GoogleProvider_GenAICli_generate w
             \<lparr>ref = r, name = ''Google'', models = google_models, client = None\<rparr> options =
           ([], Return (failure (''GOOGLE_API_KEY or GEMINI_API_KEY environment variable is required. ''
                                 @ ''For nanobanana models, omit --api to use Gemini CLI instead.'')))"
    if "\<not> (isNanoBanana (model options) \<and> \<not> flag (useApi options))" for w options
    using that by (auto simp: GoogleProvider_GenAICli_generate_def return_def)
  have a: "generate_calls (fst (action g w s opts)) = [] \<and> snd (action g w s opts) = Exit 1"
    if "fst (getProviderForModel g (model opts) s) = Inl x" for g w s opts x
    by (simp add: action_without_provider [OF that])
  from r o g1 g2 g3 g4 a show ?thesis by blast
qed

text \<open>Model \<open>flux\<close> without \<open>REPLICATE_API_TOKEN\<close>: the action fails before any call.\<close>

theorem credentials_checked_witness:
  "new_ReplicateProvider Map.empty 0 = Inl (Error ''REPLICATE_API_TOKEN environment variable is required'') \<and>
   action GenAICli world_fail2 (start Map.empty) opts3 =
     ([SpinnerStart ''Generating 3 variations with flux...'',
       SpinnerFail ''Error: REPLICATE_API_TOKEN environment variable is required''], Exit 1) \<and>
   generate_calls (fst (action GenAICli world_fail2 (start Map.empty) opts3)) = []"
proof -
  have 1: "new_ReplicateProvider Map.empty 0 =
      Inl (Error ''REPLICATE_API_TOKEN environment variable is required'')"
    using credentials_checked [of Map.empty 0] by simp
  have 2: "fst (getProviderForModel GenAICli (model opts3) (start Map.empty)) =
      Inl (Error ''REPLICATE_API_TOKEN environment variable is required'')"
    by (simp add: opts3_def flux_no_token)
  have 3: "generate_calls (fst (action GenAICli world_fail2 (start Map.empty) opts3)) = []"
    using credentials_checked [of Map.empty 0] 2 by blast
  have d: "dec 3 = ''3''" by code_simp
  have 4: "action GenAICli world_fail2 (start Map.empty) opts3 =
     ([SpinnerStart ''Generating 3 variations with flux...'',
       SpinnerFail ''Error: REPLICATE_API_TOKEN environment variable is required''], Exit 1)"
    by (simp add: action_without_provider [OF 2] opts3_useApi isMultiple_def opts3_count d)
       (simp add: opts3_def)
  from 1 3 4 show ?thesis by blast
qed

lemma imagen_obj: "obj_get MODEL_TO_PROVIDER ''imagen-4'' = Str ''google''"
  by (simp add: obj_get_def MODEL_TO_PROVIDER_def)

text \<open>
  C6 as stated fails for the CLI-capable Google adapter: in an empty environment its
  constructor returns an instance, the registry hands it out, and the missing key is
  reported only when \<open>generate\<close> is called.
\<close>

theorem google_cli_adapter_constructed_without_credentials:
  "(Map.empty :: env) ''GOOGLE_API_KEY'' = None \<and> (Map.empty :: env) ''GEMINI_API_KEY'' = None \<and>
   new_GoogleProvider GenAICli Map.empty 0 = Inr google_no_client \<and>
   fst (getProviderForModel GenAICli ''imagen-4'' (start Map.empty)) = Inr google_no_client \<and>
   GoogleProvider_GenAICli_generate world_offline google_no_client opts_imagen =
     ([], Return (failure (''GOOGLE_API_KEY or GEMINI_API_KEY environment variable is required. ''
                           @ ''For nanobanana models, omit --api to use Gemini CLI instead.'')))"
proof -
  have 0: "new_GoogleProvider_GenAICli Map.empty 0 = Inr google_no_client"
    by (simp add: new_GoogleProvider_GenAICli_def google_apiKey_def env_get_def js_or_def google_no_client_def)
  then have 1: "new_GoogleProvider GenAICli Map.empty 0 = Inr google_no_client"
    by simp
  have 2: "fst (getProviderForModel GenAICli ''imagen-4'' (start Map.empty)) = Inr google_no_client"
    by (simp add: getProviderForModel_def imagen_obj getOrCreateProvider_def start_def new_def 0)
  have m: "model opts_imagen = ''imagen-4''" by (simp add: opts_imagen_def)
  have 3: "GoogleProvider_GenAICli_generate world_offline google_no_client opts_imagen =
     ([], Return (failure (''GOOGLE_API_KEY or GEMINI_API_KEY environment variable is required. ''
                           @ ''For nanobanana models, omit --api to use Gemini CLI instead.'')))"
    by (simp add: GoogleProvider_GenAICli_generate_def m isNanoBanana_def google_no_client_def return_def)
  from 1 2 3 show ?thesis by simp
qed

end
